theory Spec2Isabelle
  imports Main "HOL-Library.Multiset" "HOL-Library.Char_ord" "HOL-Library.List_Lexorder"
    "HOL-Library.Product_Lexorder"
begin

section \<open>The classroom-management API: data model\<close>

text \<open>
  The program is an Express application (\<^verbatim>\<open>src/server.js\<close>) whose route handlers run
  SQL statements against a MySQL store, behind the two middlewares of
  \<^verbatim>\<open>src/middleware/authMiddleware.js\<close>. The embedding keeps that shape:

  \<^item> a table is the list of its rows, a row is a record of the columns the statements name;
  \<^item> a table with an \<^verbatim>\<open>id\<close> column that is filled by the store carries its
    auto-increment counter, which \<^verbatim>\<open>result.insertId\<close> reads;
  \<^item> a handler is a function from the request and the store to the response and the
    new store;
  \<^item> every \<^verbatim>\<open>getConnection\<close> and every \<^verbatim>\<open>connection.execute\<close> adds one to
    the store's counter \<open>accesses\<close>, so that "no store access" is a statement about
    the returned store;
  \<^item> \<^verbatim>\<open>getConnection\<close> fails when the store is not \<open>reachable\<close>; the handler's
    \<^verbatim>\<open>catch\<close> branch then answers 500. Statements on an open connection do not
    fail in the model, the store has no constraint of its own (the schema is not
    part of the sources), and SQL \<^verbatim>\<open>=\<close> is equality of values.

  JavaScript values are typed: a text field of a JSON body is a \<open>string option\<close>, an
  id field an \<open>int option\<close> (\<open>None\<close> for an absent field; a field that the handler
  binds without testing it is a plain value), a path parameter that names a row is
  the integer it spells (\<^verbatim>\<open>parseInt\<close> reads it back), roles are the strings the
  source compares. The messages of the responses are written without their accents
  and apostrophes.

  Sixteen of the protected routes and the registration route are modelled, each from
  its handler in \<^verbatim>\<open>src/server.js\<close>. The routes left out are the login, the creation
  of a class and the read-only listings of classes, announcements, documentation,
  tasks, messages, projects, groups and students.
\<close>

subsection \<open>Rows and tables\<close>

record 'r table =
  rows :: "'r list"
  auto_increment :: int

record user_row =
  u_id :: int
  u_nom :: string
  u_prenom :: string
  u_email :: string
  u_motDePasse :: string
  u_role :: string

record class_row =
  c_id :: int
  c_nom :: string
  c_description :: "string option"
  c_code :: string
  c_professeur_id :: int

record userclass_row =
  uc_id :: int
  uc_user_id :: int
  uc_class_id :: int
  uc_role_dans_classe :: string

record classmember_row =
  cm_class_id :: int
  cm_user_id :: int

record announcement_row =
  a_id :: int
  a_class_id :: int
  a_professeur_id :: int
  a_titre :: string
  a_contenu :: string

record documentation_row =
  d_id :: int
  d_class_id :: int
  d_professeur_id :: int
  d_titre :: string
  d_description :: "string option"
  d_file_path :: "string option"

record task_row =
  t_id :: int
  t_class_id :: int
  t_professeur_id :: int
  t_titre :: string
  t_description :: "string option"
  t_date_limite :: string

record submission_row =
  s_id :: int
  s_task_id :: int
  s_student_id :: int
  s_file_path :: "string option"
  s_content :: "string option"
  s_submitted_at :: nat
  s_grade :: "int option"
  s_correction_feedback :: "string option"

record message_row =
  m_id :: int
  m_sender_id :: int
  m_receiver_id :: "int option"
  m_class_id :: "int option"
  m_content :: string
  m_message_type :: string

record projet_row =
  p_id :: int
  p_class_id :: int
  p_titre :: "string option"
  p_description :: "string option"
  p_date_debut :: "string option"
  p_date_fin :: "string option"

record groupe_row =
  g_id :: int
  g_projet_id :: int
  g_nom_groupe :: "string option"
  g_description :: "string option"

record membregroupe_row =
  mg_group_id :: int
  mg_user_id :: int

text \<open>
  The store. \<open>UserClasses\<close> and \<open>ClassMembers\<close> are two tables of the source: the
  class, announcement and task routes read and write the first, the message, project
  and group routes read the second (and no route writes it). \<open>now\<close> is the store's
  \<^verbatim>\<open>CURRENT_TIMESTAMP\<close>.
\<close>

record db =
  Users :: "user_row table"
  Classes :: "class_row table"
  UserClasses :: "userclass_row table"
  ClassMembers :: "classmember_row list"
  Announcements :: "announcement_row table"
  Documentations :: "documentation_row table"
  Tasks :: "task_row table"
  Submissions :: "submission_row table"
  Messages :: "message_row table"
  Projets :: "projet_row table"
  Groupes :: "groupe_row table"
  MembresGroupe :: "membregroupe_row list"
  now :: nat
  reachable :: bool
  accesses :: nat

definition touch :: "db \<Rightarrow> db" where
  "touch d = d\<lparr>accesses := accesses d + 1\<rparr>"

text \<open>\<^verbatim>\<open>getConnection\<close>: \<^verbatim>\<open>mysql.createConnection\<close> throws when the store cannot be reached.\<close>

definition getConnection :: "db \<Rightarrow> db option" where
  "getConnection d = (if reachable d then Some (touch d) else None)"

text \<open>\<^verbatim>\<open>connection.execute\<close> of a statement that reads.\<close>

definition execute :: "(db \<Rightarrow> 'a) \<Rightarrow> db \<Rightarrow> 'a \<times> db" where
  "execute q c = (q c, touch c)"

text \<open>\<^verbatim>\<open>connection.execute\<close> of a statement that writes: the new store, one access later.\<close>

definition execute_write :: "(db \<Rightarrow> 'a \<times> db) \<Rightarrow> db \<Rightarrow> 'a \<times> db" where
  "execute_write w c = (case w c of (r, c') \<Rightarrow> (r, touch c'))"

text \<open>An \<^verbatim>\<open>INSERT\<close> into a table with a generated id; the result is \<^verbatim>\<open>insertId\<close>.\<close>

definition insert_row :: "(int \<Rightarrow> 'r) \<Rightarrow> 'r table \<Rightarrow> int \<times> 'r table" where
  "insert_row mk t =
     (auto_increment t,
      t\<lparr>rows := rows t @ [mk (auto_increment t)], auto_increment := auto_increment t + 1\<rparr>)"

subsection \<open>Requests and responses\<close>

text \<open>The decoded token, \<^verbatim>\<open>{ id, email, role }\<close>.\<close>

record claims =
  tok_id :: int
  tok_email :: string
  tok_role :: string

text \<open>
  A request: the \<^verbatim>\<open>x-auth-token\<close> header, \<^verbatim>\<open>req.user\<close> (set by \<^verbatim>\<open>auth\<close>), and
  the path parameters and body the route reads.
\<close>

record 'p request =
  token :: "string option"
  user :: "claims option"
  payload :: 'p

record user_view =
  uv_id :: int
  uv_prenom :: string
  uv_nom :: string
  uv_email :: string
  uv_role :: string

record registered_view =
  rv_id :: int
  rv_nom :: string
  rv_prenom :: string
  rv_email :: string
  rv_role :: string

record submission_view =
  sv_id :: int
  sv_file_path :: "string option"
  sv_content :: "string option"
  sv_submitted_at :: nat
  sv_grade :: "int option"
  sv_correction_feedback :: "string option"
  sv_studentNom :: string
  sv_studentPrenom :: string

record submission_detail =
  sd_id :: int
  sd_task_id :: int
  sd_student_id :: int
  sd_file_path :: "string option"
  sd_content :: "string option"
  sd_submitted_at :: nat
  sd_grade :: "int option"
  sd_correction_feedback :: "string option"
  sd_professeur_id :: int
  sd_taskTitre :: string
  sd_taskDescription :: "string option"
  sd_taskDateLimite :: string
  sd_studentNom :: string
  sd_studentPrenom :: string

datatype body =
    Message string
  | MessageId string int
  | Registered string string registered_view
  | UserList "user_view list"
  | SubmissionList "submission_view list"
  | SubmissionDetail submission_detail

record response =
  status :: nat
  body :: body

definition json :: "nat \<Rightarrow> body \<Rightarrow> response" where
  "json s b = \<lparr>status = s, body = b\<rparr>"

text \<open>JavaScript's \<^verbatim>\<open>!x\<close> on a text field and on a numeric field.\<close>

definition falsy :: "string option \<Rightarrow> bool" where
  "falsy x = (case x of None \<Rightarrow> True | Some s \<Rightarrow> s = [])"

definition falsy_num :: "int option \<Rightarrow> bool" where
  "falsy_num x = (case x of None \<Rightarrow> True | Some n \<Rightarrow> n = 0)"

definition text_of :: "string option \<Rightarrow> string" where
  "text_of x = (case x of None \<Rightarrow> [] | Some s \<Rightarrow> s)"

definition num_of :: "int option \<Rightarrow> int" where
  "num_of x = (case x of None \<Rightarrow> 0 | Some n \<Rightarrow> n)"

section \<open>The middlewares\<close>

text \<open>
  A middleware either answers (and the chain stops) or calls \<^verbatim>\<open>next()\<close> with the
  request. Neither middleware of the source is given the store.
\<close>

type_synonym 'p middleware = "'p request \<Rightarrow> response + 'p request"
type_synonym 'p handler = "'p request \<Rightarrow> db \<Rightarrow> response \<times> db"

text \<open>
  \<^verbatim>\<open>auth\<close>. \<open>verify\<close> is \<^verbatim>\<open>jwt.verify(token, process.env.JWT_SECRET)\<close>: \<open>None\<close> when
  it throws (malformed, expired, bad signature).
\<close>

definition auth :: "(string \<Rightarrow> claims option) \<Rightarrow> 'p middleware" where
  "auth verify req =
     (if falsy (token req)
      then Inl (json 401 (Message ''Aucun token, autorisation refusee''))
      else (case verify (text_of (token req)) of
              Some decoded \<Rightarrow> Inr (req\<lparr>user := Some decoded\<rparr>)
            | None \<Rightarrow> Inl (json 401 (Message ''Token non valide''))))"

definition authorizeRole :: "string list \<Rightarrow> 'p middleware" where
  "authorizeRole roles req =
     (case user req of
        None \<Rightarrow> Inl (json 403 (Message ''Acces non autorise''))
      | Some u \<Rightarrow>
          if tok_role u \<notin> set roles
          then Inl (json 403 (Message ''Acces non autorise''))
          else Inr req)"

text \<open>\<^verbatim>\<open>app.METHOD(path, m1, ..., mk, handler)\<close>: the middlewares in order, then the handler.\<close>

fun route :: "'p middleware list \<Rightarrow> 'p handler \<Rightarrow> 'p handler" where
  "route [] h req d = h req d"
| "route (m # ms) h req d =
     (case m req of Inl res \<Rightarrow> (res, d) | Inr req' \<Rightarrow> route ms h req' d)"

text \<open>
  The handlers read \<^verbatim>\<open>req.user.id\<close> and \<^verbatim>\<open>req.user.role\<close>. Reading a field of an
  undefined \<^verbatim>\<open>req.user\<close> raises a TypeError; behind \<^verbatim>\<open>auth\<close> it is always set.
\<close>

definition with_user :: "(claims \<Rightarrow> 'p \<Rightarrow> db \<Rightarrow> response \<times> db) \<Rightarrow> 'p handler" where
  "with_user h req d =
     (case user req of
        None \<Rightarrow> (json 500 (Message ''TypeError''), d)
      | Some u \<Rightarrow> h u (payload req) d)"

text \<open>
  The request is authenticated as \<open>u\<close>: \<^verbatim>\<open>auth\<close> calls \<^verbatim>\<open>next()\<close> with
  \<^verbatim>\<open>req.user = u\<close>.
\<close>

definition authenticated :: "(string \<Rightarrow> claims option) \<Rightarrow> 'p request \<Rightarrow> claims \<Rightarrow> bool" where
  "authenticated verify req u =
     (case auth verify req of Inl res \<Rightarrow> False | Inr req' \<Rightarrow> user req' = Some u)"

section \<open>The routes\<close>

subsection \<open>GET /api/users/all\<close>

definition user_view_of :: "user_row \<Rightarrow> user_view" where
  "user_view_of u =
     \<lparr>uv_id = u_id u, uv_prenom = u_prenom u, uv_nom = u_nom u, uv_email = u_email u,
      uv_role = u_role u\<rparr>"

text \<open>
  \<^verbatim>\<open>SELECT id, prenom, nom, email, role FROM Users ORDER BY role, nom, prenom\<close>;
  strings are compared character by character (the collation of the columns is part
  of the schema, which is not in the sources).
\<close>

definition select_users_all :: "db \<Rightarrow> user_view list" where
  "select_users_all c =
     sort_key (\<lambda>v. (uv_role v, uv_nom v, uv_prenom v)) (map user_view_of (rows (Users c)))"

definition users_all_handler :: "claims \<Rightarrow> unit \<Rightarrow> db \<Rightarrow> response \<times> db" where
  "users_all_handler u p d =
     (case getConnection d of
        None \<Rightarrow> (json 500 (Message ''Erreur interne du serveur.''), touch d)
      | Some c \<Rightarrow>
          (case execute select_users_all c of
             (users, c1) \<Rightarrow> (json 200 (UserList users), c1)))"

definition get_users_all :: "(string \<Rightarrow> claims option) \<Rightarrow> unit handler" where
  "get_users_all verify =
     route [auth verify, authorizeRole [''Professeur'', ''Coordinateur'']]
       (with_user users_all_handler)"

subsection \<open>POST /api/auth/register\<close>

record register_body =
  rb_nom :: "string option"
  rb_prenom :: "string option"
  rb_email :: "string option"
  rb_password :: "string option"
  rb_role :: "string option"

text \<open>\<^verbatim>\<open>SELECT id FROM Users WHERE email = ?\<close>\<close>

definition select_user_ids_by_email :: "string \<Rightarrow> db \<Rightarrow> int list" where
  "select_user_ids_by_email e c = map u_id (filter (\<lambda>u. u_email u = e) (rows (Users c)))"

text \<open>\<^verbatim>\<open>INSERT INTO Users (nom, prenom, email, motDePasse, role) VALUES (?, ?, ?, ?, ?)\<close>\<close>

definition insert_user :: "string \<Rightarrow> string \<Rightarrow> string \<Rightarrow> string \<Rightarrow> string \<Rightarrow> db \<Rightarrow> int \<times> db" where
  "insert_user n p e h r c =
     (case insert_row (\<lambda>i. \<lparr>u_id = i, u_nom = n, u_prenom = p, u_email = e,
                              u_motDePasse = h, u_role = r\<rparr>) (Users c) of
        (i, t) \<Rightarrow> (i, c\<lparr>Users := t\<rparr>))"

text \<open>
  The route has no middleware. \<open>sign\<close> is \<^verbatim>\<open>jwt.sign(payload, secret, {expiresIn: '1h'})\<close>
  and \<open>hash\<close> is \<^verbatim>\<open>bcrypt.hash\<close> with its fresh salt.
\<close>

definition register_handler ::
  "(claims \<Rightarrow> string) \<Rightarrow> (string \<Rightarrow> string) \<Rightarrow> register_body handler" where
  "register_handler sign hash req d =
     (let b = payload req in
      if falsy (rb_nom b) \<or> falsy (rb_prenom b) \<or> falsy (rb_email b)
         \<or> falsy (rb_password b) \<or> falsy (rb_role b)
      then (json 400 (Message ''Tous les champs sont requis.''), d)
      else
        (case getConnection d of
           None \<Rightarrow>
             (json 500 (Message ''Erreur interne du serveur lors de l inscription.''), touch d)
         | Some c \<Rightarrow>
             (case execute (select_user_ids_by_email (text_of (rb_email b))) c of
                (existingUsers, c1) \<Rightarrow>
                  if length existingUsers > 0
                  then (json 400 (Message ''Cet email est deja enregistre.''), c1)
                  else
                    (let hashedPassword = hash (text_of (rb_password b)) in
                     case execute_write
                            (insert_user (text_of (rb_nom b)) (text_of (rb_prenom b))
                               (text_of (rb_email b)) hashedPassword (text_of (rb_role b))) c1 of
                       (insertId, c2) \<Rightarrow>
                         (let tok = sign \<lparr>tok_id = insertId, tok_email = text_of (rb_email b),
                                           tok_role = text_of (rb_role b)\<rparr>
                          in (json 201
                                (Registered ''Utilisateur enregistre avec succes !'' tok
                                   \<lparr>rv_id = insertId, rv_nom = text_of (rb_nom b),
                                    rv_prenom = text_of (rb_prenom b),
                                    rv_email = text_of (rb_email b),
                                    rv_role = text_of (rb_role b)\<rparr>), c2))))))"

definition post_register ::
  "(claims \<Rightarrow> string) \<Rightarrow> (string \<Rightarrow> string) \<Rightarrow> register_body handler" where
  "post_register sign hash = route [] (register_handler sign hash)"

subsection \<open>POST /api/classes/join\<close>

record join_body =
  jb_code :: "string option"

text \<open>\<^verbatim>\<open>SELECT id FROM Classes WHERE code = ?\<close>\<close>

definition select_class_ids_by_code :: "string \<Rightarrow> db \<Rightarrow> int list" where
  "select_class_ids_by_code k c = map c_id (filter (\<lambda>r. c_code r = k) (rows (Classes c)))"

text \<open>\<^verbatim>\<open>SELECT id FROM UserClasses WHERE user_id = ? AND class_id = ?\<close>\<close>

definition select_enrollment :: "int \<Rightarrow> int \<Rightarrow> db \<Rightarrow> int list" where
  "select_enrollment uid cid c =
     map uc_id (filter (\<lambda>r. uc_user_id r = uid \<and> uc_class_id r = cid) (rows (UserClasses c)))"

text \<open>\<^verbatim>\<open>INSERT INTO UserClasses (user_id, class_id, role_dans_classe) VALUES (?, ?, ?)\<close>\<close>

definition insert_userclass :: "int \<Rightarrow> int \<Rightarrow> string \<Rightarrow> db \<Rightarrow> int \<times> db" where
  "insert_userclass uid cid r c =
     (case insert_row (\<lambda>i. \<lparr>uc_id = i, uc_user_id = uid, uc_class_id = cid,
                              uc_role_dans_classe = r\<rparr>) (UserClasses c) of
        (i, t) \<Rightarrow> (i, c\<lparr>UserClasses := t\<rparr>))"

definition join_handler :: "claims \<Rightarrow> join_body \<Rightarrow> db \<Rightarrow> response \<times> db" where
  "join_handler u b d =
     (let studentId = tok_id u in
      if falsy (jb_code b)
      then (json 400 (Message ''Le code de la classe est requis.''), d)
      else
        (case getConnection d of
           None \<Rightarrow>
             (json 500
                (Message ''Erreur interne du serveur lors de l inscription a la classe.''),
              touch d)
         | Some c \<Rightarrow>
             (case execute (select_class_ids_by_code (text_of (jb_code b))) c of
                (classes, c1) \<Rightarrow>
                  (case classes of
                     [] \<Rightarrow> (json 404 (Message ''Classe introuvable avec ce code.''), c1)
                   | classToJoin # _ \<Rightarrow>
                       (case execute (select_enrollment studentId classToJoin) c1 of
                          (existingEnrollment, c2) \<Rightarrow>
                            if length existingEnrollment > 0
                            then (json 409
                                    (Message ''Vous etes deja inscrit a cette classe.''), c2)
                            else
                              (case execute_write
                                      (insert_userclass studentId classToJoin ''Etudiant'')
                                      c2 of
                                 (_, c3) \<Rightarrow>
                                   (json 200 (Message ''Classe rejointe avec succes !''),
                                    c3)))))))"

definition post_classes_join :: "(string \<Rightarrow> claims option) \<Rightarrow> join_body handler" where
  "post_classes_join verify =
     route [auth verify, authorizeRole [''Etudiant'']] (with_user join_handler)"

subsection \<open>POST /api/announcements, /api/documentations, /api/tasks\<close>

text \<open>\<^verbatim>\<open>SELECT id FROM Classes WHERE id = ? AND professeur_id = ?\<close>\<close>

definition select_owned_class :: "int \<Rightarrow> int \<Rightarrow> db \<Rightarrow> int list" where
  "select_owned_class cid pid c =
     map c_id (filter (\<lambda>r. c_id r = cid \<and> c_professeur_id r = pid) (rows (Classes c)))"

record announcement_body =
  ab_class_id :: "int option"
  ab_titre :: "string option"
  ab_contenu :: "string option"

definition insert_announcement :: "int \<Rightarrow> int \<Rightarrow> string \<Rightarrow> string \<Rightarrow> db \<Rightarrow> int \<times> db" where
  "insert_announcement cid pid ti co c =
     (case insert_row (\<lambda>i. \<lparr>a_id = i, a_class_id = cid, a_professeur_id = pid, a_titre = ti,
                              a_contenu = co\<rparr>) (Announcements c) of
        (i, t) \<Rightarrow> (i, c\<lparr>Announcements := t\<rparr>))"

text \<open>
  The 201 bodies of the three creation routes carry the message and an object made
  of \<^verbatim>\<open>result.insertId\<close> and the request's own fields; the model keeps the message
  and the id.
\<close>

definition announcement_handler :: "claims \<Rightarrow> announcement_body \<Rightarrow> db \<Rightarrow> response \<times> db" where
  "announcement_handler u b d =
     (let professeur_id = tok_id u in
      if falsy_num (ab_class_id b) \<or> falsy (ab_titre b) \<or> falsy (ab_contenu b)
      then (json 400 (Message ''L ID de la classe, le titre et le contenu sont requis.''), d)
      else
        (case getConnection d of
           None \<Rightarrow>
             (json 500
                (Message ''Erreur interne du serveur lors de la creation de l annonce.''),
              touch d)
         | Some c \<Rightarrow>
             (case execute (select_owned_class (num_of (ab_class_id b)) professeur_id) c of
                (classes, c1) \<Rightarrow>
                  if length classes = 0
                  then (json 403
                          (Message
                             ''Vous n etes pas autorise a publier une annonce dans cette classe.''),
                        c1)
                  else
                    (case execute_write
                            (insert_announcement (num_of (ab_class_id b)) professeur_id
                               (text_of (ab_titre b)) (text_of (ab_contenu b))) c1 of
                       (insertId, c2) \<Rightarrow>
                         (json 201 (MessageId ''Annonce creee avec succes !'' insertId), c2)))))"

definition post_announcements :: "(string \<Rightarrow> claims option) \<Rightarrow> announcement_body handler" where
  "post_announcements verify =
     route [auth verify, authorizeRole [''Professeur'']] (with_user announcement_handler)"

record documentation_body =
  db_class_id :: "int option"
  db_titre :: "string option"
  db_description :: "string option"
  db_file_path :: "string option"

definition insert_documentation ::
  "int \<Rightarrow> int \<Rightarrow> string \<Rightarrow> string option \<Rightarrow> string option \<Rightarrow> db \<Rightarrow> int \<times> db" where
  "insert_documentation cid pid ti de fp c =
     (case insert_row (\<lambda>i. \<lparr>d_id = i, d_class_id = cid, d_professeur_id = pid, d_titre = ti,
                              d_description = de, d_file_path = fp\<rparr>) (Documentations c) of
        (i, t) \<Rightarrow> (i, c\<lparr>Documentations := t\<rparr>))"

definition documentation_handler ::
  "claims \<Rightarrow> documentation_body \<Rightarrow> db \<Rightarrow> response \<times> db" where
  "documentation_handler u b d =
     (let professeur_id = tok_id u in
      if falsy_num (db_class_id b) \<or> falsy (db_titre b)
      then (json 400 (Message ''L ID de la classe et le titre sont requis.''), d)
      else
        (case getConnection d of
           None \<Rightarrow>
             (json 500
                (Message ''Erreur interne du serveur lors du partage de la documentation.''),
              touch d)
         | Some c \<Rightarrow>
             (case execute (select_owned_class (num_of (db_class_id b)) professeur_id) c of
                (classes, c1) \<Rightarrow>
                  if length classes = 0
                  then (json 403
                          (Message
                             ''Vous n etes pas autorise a partager de la documentation dans cette classe.''),
                        c1)
                  else
                    (case execute_write
                            (insert_documentation (num_of (db_class_id b)) professeur_id
                               (text_of (db_titre b)) (db_description b) (db_file_path b))
                            c1 of
                       (insertId, c2) \<Rightarrow>
                         (json 201
                            (MessageId ''Documentation partagee avec succes !'' insertId),
                          c2)))))"

definition post_documentations ::
  "(string \<Rightarrow> claims option) \<Rightarrow> documentation_body handler" where
  "post_documentations verify =
     route [auth verify, authorizeRole [''Professeur'']] (with_user documentation_handler)"

record task_body =
  tb_class_id :: "int option"
  tb_titre :: "string option"
  tb_description :: "string option"
  tb_date_limite :: "string option"

definition insert_task ::
  "int \<Rightarrow> int \<Rightarrow> string \<Rightarrow> string option \<Rightarrow> string \<Rightarrow> db \<Rightarrow> int \<times> db" where
  "insert_task cid pid ti de dl c =
     (case insert_row (\<lambda>i. \<lparr>t_id = i, t_class_id = cid, t_professeur_id = pid, t_titre = ti,
                              t_description = de, t_date_limite = dl\<rparr>) (Tasks c) of
        (i, t) \<Rightarrow> (i, c\<lparr>Tasks := t\<rparr>))"

definition task_handler :: "claims \<Rightarrow> task_body \<Rightarrow> db \<Rightarrow> response \<times> db" where
  "task_handler u b d =
     (let professeur_id = tok_id u in
      if falsy_num (tb_class_id b) \<or> falsy (tb_titre b) \<or> falsy (tb_date_limite b)
      then (json 400
              (Message ''L ID de la classe, le titre et la date limite sont requis.''), d)
      else
        (case getConnection d of
           None \<Rightarrow>
             (json 500
                (Message ''Erreur interne du serveur lors de l assignation de la tache.''),
              touch d)
         | Some c \<Rightarrow>
             (case execute (select_owned_class (num_of (tb_class_id b)) professeur_id) c of
                (classes, c1) \<Rightarrow>
                  if length classes = 0
                  then (json 403
                          (Message
                             ''Vous n etes pas autorise a assigner une tache dans cette classe.''),
                        c1)
                  else
                    (case execute_write
                            (insert_task (num_of (tb_class_id b)) professeur_id
                               (text_of (tb_titre b)) (tb_description b)
                               (text_of (tb_date_limite b))) c1 of
                       (insertId, c2) \<Rightarrow>
                         (json 201 (MessageId ''Tache assignee avec succes !'' insertId),
                          c2)))))"

definition post_tasks :: "(string \<Rightarrow> claims option) \<Rightarrow> task_body handler" where
  "post_tasks verify =
     route [auth verify, authorizeRole [''Professeur'']] (with_user task_handler)"

subsection \<open>POST /api/tasks/:taskId/submit\<close>

record submit_body =
  sb_taskId :: int
  sb_file_path :: "string option"
  sb_content :: "string option"

text \<open>\<^verbatim>\<open>SELECT class_id FROM Tasks WHERE id = ?\<close>\<close>

definition select_task_class :: "int \<Rightarrow> db \<Rightarrow> int list" where
  "select_task_class tid c = map t_class_id (filter (\<lambda>r. t_id r = tid) (rows (Tasks c)))"

text \<open>\<^verbatim>\<open>SELECT id FROM Submissions WHERE task_id = ? AND student_id = ?\<close>\<close>

definition select_submission_ids :: "int \<Rightarrow> int \<Rightarrow> db \<Rightarrow> int list" where
  "select_submission_ids tid sid c =
     map s_id (filter (\<lambda>r. s_task_id r = tid \<and> s_student_id r = sid) (rows (Submissions c)))"

text \<open>
  \<^verbatim>\<open>UPDATE Submissions SET file_path = ?, content = ?, submitted_at = CURRENT_TIMESTAMP WHERE id = ?\<close>
\<close>

definition update_submission :: "string option \<Rightarrow> string option \<Rightarrow> int \<Rightarrow> db \<Rightarrow> unit \<times> db" where
  "update_submission fp co k c =
     ((), c\<lparr>Submissions := (Submissions c)\<lparr>rows :=
            map (\<lambda>r. if s_id r = k
                      then r\<lparr>s_file_path := fp, s_content := co, s_submitted_at := now c\<rparr>
                      else r) (rows (Submissions c))\<rparr>\<rparr>)"

text \<open>
  Modelled from the spec: the declaration of table \<^verbatim>\<open>Submissions\<close> (the defaults of
  the columns that the statement below leaves out) is not in the sources. A new row
  carries the time of its creation in \<^verbatim>\<open>submitted_at\<close> (a resubmission "overwrites
  content and timestamp") and no grade or feedback ("optional grade + feedback").

  \<^verbatim>\<open>INSERT INTO Submissions (task_id, student_id, file_path, content) VALUES (?, ?, ?, ?)\<close>
\<close>

definition insert_submission ::
  "int \<Rightarrow> int \<Rightarrow> string option \<Rightarrow> string option \<Rightarrow> db \<Rightarrow> int \<times> db" where
  "insert_submission tid sid fp co c =
     (case insert_row (\<lambda>i. \<lparr>s_id = i, s_task_id = tid, s_student_id = sid, s_file_path = fp,
                              s_content = co, s_submitted_at = now c, s_grade = None,
                              s_correction_feedback = None\<rparr>) (Submissions c) of
        (i, t) \<Rightarrow> (i, c\<lparr>Submissions := t\<rparr>))"

definition submit_handler :: "claims \<Rightarrow> submit_body \<Rightarrow> db \<Rightarrow> response \<times> db" where
  "submit_handler u b d =
     (let taskId = sb_taskId b; student_id = tok_id u in
      if falsy (sb_file_path b) \<and> falsy (sb_content b)
      then (json 400
              (Message ''Un chemin de fichier ou un contenu est requis pour la soumission.''),
            d)
      else
        (case getConnection d of
           None \<Rightarrow>
             (json 500
                (Message ''Erreur interne du serveur lors de la soumission de la tache.''),
              touch d)
         | Some c \<Rightarrow>
             (case execute (select_task_class taskId) c of
                (taskInfo, c1) \<Rightarrow>
                  (case taskInfo of
                     [] \<Rightarrow> (json 404 (Message ''Tache non trouvee.''), c1)
                   | class_id # _ \<Rightarrow>
                       (case execute (select_enrollment student_id class_id) c1 of
                          (enrollment, c2) \<Rightarrow>
                            if length enrollment = 0
                            then (json 403
                                    (Message
                                       ''Vous n etes pas autorise a soumettre a cette tache (non inscrit a la classe).''),
                                  c2)
                            else
                              (case execute (select_submission_ids taskId student_id) c2 of
                                 (existingSubmission, c3) \<Rightarrow>
                                   (case existingSubmission of
                                      existing_id # _ \<Rightarrow>
                                        (case execute_write
                                                (update_submission (sb_file_path b)
                                                   (sb_content b) existing_id) c3 of
                                           (_, c4) \<Rightarrow>
                                             (json 200
                                                (Message
                                                   ''Soumission de tache mise a jour avec succes !''),
                                              c4))
                                    | [] \<Rightarrow>
                                        (case execute_write
                                                (insert_submission taskId student_id
                                                   (sb_file_path b) (sb_content b)) c3 of
                                           (insertId, c4) \<Rightarrow>
                                             (json 201
                                                (MessageId ''Tache soumise avec succes !''
                                                   insertId),
                                              c4)))))))))"

definition post_tasks_submit :: "(string \<Rightarrow> claims option) \<Rightarrow> submit_body handler" where
  "post_tasks_submit verify =
     route [auth verify, authorizeRole [''Etudiant'']] (with_user submit_handler)"

subsection \<open>GET /api/tasks/:taskId/submissions\<close>

text \<open>\<^verbatim>\<open>SELECT id FROM Tasks WHERE id = ? AND professeur_id = ?\<close>\<close>

definition select_owned_task :: "int \<Rightarrow> int \<Rightarrow> db \<Rightarrow> int list" where
  "select_owned_task tid pid c =
     map t_id (filter (\<lambda>r. t_id r = tid \<and> t_professeur_id r = pid) (rows (Tasks c)))"

text \<open>
  \<^verbatim>\<open>SELECT S.id, ..., U.nom as studentNom, U.prenom as studentPrenom FROM Submissions S
  JOIN Users U ON S.student_id = U.id WHERE S.task_id = ? ORDER BY S.submitted_at ASC\<close>
\<close>

definition select_task_submissions :: "int \<Rightarrow> db \<Rightarrow> submission_view list" where
  "select_task_submissions tid c =
     sort_key sv_submitted_at
       (concat (map (\<lambda>s. map (\<lambda>w. \<lparr>sv_id = s_id s, sv_file_path = s_file_path s,
                                     sv_content = s_content s,
                                     sv_submitted_at = s_submitted_at s, sv_grade = s_grade s,
                                     sv_correction_feedback = s_correction_feedback s,
                                     sv_studentNom = u_nom w, sv_studentPrenom = u_prenom w\<rparr>)
                               (filter (\<lambda>w. u_id w = s_student_id s) (rows (Users c))))
                    (filter (\<lambda>s. s_task_id s = tid) (rows (Submissions c)))))"

definition task_submissions_handler :: "claims \<Rightarrow> int \<Rightarrow> db \<Rightarrow> response \<times> db" where
  "task_submissions_handler u taskId d =
     (let professeur_id = tok_id u in
      case getConnection d of
        None \<Rightarrow>
          (json 500
             (Message ''Erreur interne du serveur lors de la recuperation des soumissions.''),
           touch d)
      | Some c \<Rightarrow>
          (case execute (select_owned_task taskId professeur_id) c of
             (taskInfo, c1) \<Rightarrow>
               if length taskInfo = 0
               then (json 403
                       (Message
                          ''Vous n etes pas autorise a voir les soumissions de cette tache.''),
                     c1)
               else
                 (case execute (select_task_submissions taskId) c1 of
                    (submissions, c2) \<Rightarrow> (json 200 (SubmissionList submissions), c2))))"

definition get_task_submissions :: "(string \<Rightarrow> claims option) \<Rightarrow> int handler" where
  "get_task_submissions verify =
     route [auth verify, authorizeRole [''Professeur'']] (with_user task_submissions_handler)"

subsection \<open>PUT /api/submissions/:submissionId/grade\<close>

text \<open>
  \<open>None\<close> is \<^verbatim>\<open>undefined\<close> here: the handler tests \<^verbatim>\<open>grade === undefined\<close>.
\<close>

record grade_body =
  gb_submissionId :: int
  gb_grade :: "int option"
  gb_feedback :: "string option"

text \<open>
  \<^verbatim>\<open>SELECT T.professeur_id FROM Submissions S JOIN Tasks T ON S.task_id = T.id WHERE S.id = ?\<close>
\<close>

definition select_submission_professeur :: "int \<Rightarrow> db \<Rightarrow> int list" where
  "select_submission_professeur k c =
     concat (map (\<lambda>s. map t_professeur_id (filter (\<lambda>t. t_id t = s_task_id s) (rows (Tasks c))))
                 (filter (\<lambda>s. s_id s = k) (rows (Submissions c))))"

text \<open>\<^verbatim>\<open>UPDATE Submissions SET grade = ?, correction_feedback = ? WHERE id = ?\<close>\<close>

definition update_grade :: "int option \<Rightarrow> string option \<Rightarrow> int \<Rightarrow> db \<Rightarrow> unit \<times> db" where
  "update_grade g f k c =
     ((), c\<lparr>Submissions := (Submissions c)\<lparr>rows :=
            map (\<lambda>r. if s_id r = k then r\<lparr>s_grade := g, s_correction_feedback := f\<rparr> else r)
                (rows (Submissions c))\<rparr>\<rparr>)"

definition grade_handler :: "claims \<Rightarrow> grade_body \<Rightarrow> db \<Rightarrow> response \<times> db" where
  "grade_handler u b d =
     (let submissionId = gb_submissionId b; professeur_id = tok_id u in
      if gb_grade b = None \<or> gb_feedback b = None
      then (json 400 (Message ''La note et le feedback sont requis.''), d)
      else
        (case getConnection d of
           None \<Rightarrow>
             (json 500
                (Message ''Erreur interne du serveur lors de la notation de la soumission.''),
              touch d)
         | Some c \<Rightarrow>
             (case execute (select_submission_professeur submissionId) c of
                (submissionInfo, c1) \<Rightarrow>
                  if length submissionInfo = 0 \<or> hd submissionInfo \<noteq> professeur_id
                  then (json 403
                          (Message ''Vous n etes pas autorise a noter cette soumission.''), c1)
                  else
                    (case execute_write
                            (update_grade (gb_grade b) (gb_feedback b) submissionId) c1 of
                       (_, c2) \<Rightarrow>
                         (json 200
                            (Message ''Soumission notee et corrigee avec succes !''), c2)))))"

definition put_submission_grade :: "(string \<Rightarrow> claims option) \<Rightarrow> grade_body handler" where
  "put_submission_grade verify =
     route [auth verify, authorizeRole [''Professeur'']] (with_user grade_handler)"

subsection \<open>GET /api/submissions/:submissionId\<close>

text \<open>
  \<^verbatim>\<open>SELECT S.*, T.professeur_id, T.titre, T.description, T.date_limite, U.nom, U.prenom
  FROM Submissions S JOIN Tasks T ON S.task_id = T.id JOIN Users U ON S.student_id = U.id
  WHERE S.id = ?\<close>
\<close>

definition select_submission_detail :: "int \<Rightarrow> db \<Rightarrow> submission_detail list" where
  "select_submission_detail k c =
     concat (map (\<lambda>s.
        concat (map (\<lambda>t.
           map (\<lambda>w. \<lparr>sd_id = s_id s, sd_task_id = s_task_id s, sd_student_id = s_student_id s,
                      sd_file_path = s_file_path s, sd_content = s_content s,
                      sd_submitted_at = s_submitted_at s, sd_grade = s_grade s,
                      sd_correction_feedback = s_correction_feedback s,
                      sd_professeur_id = t_professeur_id t, sd_taskTitre = t_titre t,
                      sd_taskDescription = t_description t,
                      sd_taskDateLimite = t_date_limite t,
                      sd_studentNom = u_nom w, sd_studentPrenom = u_prenom w\<rparr>)
               (filter (\<lambda>w. u_id w = s_student_id s) (rows (Users c))))
          (filter (\<lambda>t. t_id t = s_task_id s) (rows (Tasks c)))))
       (filter (\<lambda>s. s_id s = k) (rows (Submissions c))))"

definition submission_handler :: "claims \<Rightarrow> int \<Rightarrow> db \<Rightarrow> response \<times> db" where
  "submission_handler u submissionId d =
     (let userId = tok_id u; userRole = tok_role u in
      case getConnection d of
        None \<Rightarrow>
          (json 500
             (Message ''Erreur interne du serveur lors de la recuperation de la soumission.''),
           touch d)
      | Some c \<Rightarrow>
          (case execute (select_submission_detail submissionId) c of
             (submission, c1) \<Rightarrow>
               (case submission of
                  [] \<Rightarrow> (json 404 (Message ''Soumission non trouvee.''), c1)
                | sub # _ \<Rightarrow>
                    if userRole = ''Etudiant'' \<and> sd_student_id sub \<noteq> userId
                    then (json 403
                            (Message ''Vous n etes pas autorise a voir cette soumission.''), c1)
                    else if userRole = ''Professeur'' \<and> sd_professeur_id sub \<noteq> userId
                    then (json 403
                            (Message ''Vous n etes pas autorise a voir cette soumission.''), c1)
                    else (json 200 (SubmissionDetail sub), c1))))"

definition get_submission :: "(string \<Rightarrow> claims option) \<Rightarrow> int handler" where
  "get_submission verify = route [auth verify] (with_user submission_handler)"

subsection \<open>POST /api/messages\<close>

record message_body =
  mb_receiver_id :: "int option"
  mb_class_id :: "int option"
  mb_content :: "string option"
  mb_message_type :: "string option"

text \<open>
  \<^verbatim>\<open>content.trim() === ''\<close>: every character is white space (the ASCII white space of
  \<^verbatim>\<open>String.prototype.trim\<close>: tab, line feed, vertical tab, form feed, carriage return, space).
\<close>

definition js_white_space :: "char \<Rightarrow> bool" where
  "js_white_space ch = (of_char ch \<in> {9, 10, 11, 12, 13, 32 :: nat})"

definition trim_is_empty :: "string \<Rightarrow> bool" where
  "trim_is_empty s = list_all js_white_space s"

text \<open>\<^verbatim>\<open>SELECT id FROM Users WHERE id = ?\<close>\<close>

definition select_user_ids :: "int \<Rightarrow> db \<Rightarrow> int list" where
  "select_user_ids k c = map u_id (filter (\<lambda>r. u_id r = k) (rows (Users c)))"

text \<open>\<^verbatim>\<open>SELECT role FROM Users WHERE id = ?\<close>\<close>

definition select_user_role :: "int \<Rightarrow> db \<Rightarrow> string list" where
  "select_user_role k c = map u_role (filter (\<lambda>r. u_id r = k) (rows (Users c)))"

text \<open>
  \<^verbatim>\<open>SELECT C.id FROM Classes C JOIN ClassMembers CM ON C.id = CM.class_id
  WHERE C.id = ? AND CM.user_id = ?\<close>
\<close>

definition select_class_membership :: "int \<Rightarrow> int \<Rightarrow> db \<Rightarrow> int list" where
  "select_class_membership cid uid c =
     concat (map (\<lambda>r. map (\<lambda>m. c_id r)
                          (filter (\<lambda>m. cm_class_id m = c_id r \<and> cm_user_id m = uid)
                                  (ClassMembers c)))
                 (filter (\<lambda>r. c_id r = cid) (rows (Classes c))))"

text \<open>
  \<^verbatim>\<open>INSERT INTO Messages (sender_id, receiver_id, content, message_type) VALUES (?, ?, ?, ?)\<close>
  and
  \<^verbatim>\<open>INSERT INTO Messages (sender_id, class_id, content, message_type) VALUES (?, ?, ?, ?)\<close>:
  the column that is not named is NULL.
\<close>

definition insert_message ::
  "int \<Rightarrow> int option \<Rightarrow> int option \<Rightarrow> string \<Rightarrow> string \<Rightarrow> db \<Rightarrow> int \<times> db" where
  "insert_message sid rid cid co ty c =
     (case insert_row (\<lambda>i. \<lparr>m_id = i, m_sender_id = sid, m_receiver_id = rid, m_class_id = cid,
                              m_content = co, m_message_type = ty\<rparr>) (Messages c) of
        (i, t) \<Rightarrow> (i, c\<lparr>Messages := t\<rparr>))"

definition message_handler :: "claims \<Rightarrow> message_body \<Rightarrow> db \<Rightarrow> response \<times> db" where
  "message_handler u b d =
     (let sender_id = tok_id u in
      case getConnection d of
        None \<Rightarrow>
          (json 500 (Message ''Erreur interne du serveur lors de l envoi du message.''),
           touch d)
      | Some c \<Rightarrow>
          if falsy (mb_content b) \<or> trim_is_empty (text_of (mb_content b))
          then (json 400 (Message ''Le contenu du message ne peut pas etre vide.''), c)
          else if mb_message_type b \<notin> {Some ''public'', Some ''private''}
          then (json 400
                  (Message ''Type de message invalide. Doit etre public ou private.''), c)
          else if mb_message_type b = Some ''private''
          then
            (if falsy_num (mb_receiver_id b)
             then (json 400
                     (Message ''L ID du destinataire est requis pour un message prive.''), c)
             else if sender_id = num_of (mb_receiver_id b)
             then (json 400
                     (Message
                        ''Vous ne pouvez pas vous envoyer un message prive a vous-meme.''), c)
             else
               (case execute (select_user_ids (num_of (mb_receiver_id b))) c of
                  (receiverExists, c1) \<Rightarrow>
                    if length receiverExists = 0
                    then (json 404 (Message ''Destinataire non trouve.''), c1)
                    else
                      (case execute_write
                              (insert_message sender_id (mb_receiver_id b) None
                                 (text_of (mb_content b)) ''private'') c1 of
                         (_, c2) \<Rightarrow>
                           (json 201 (Message ''Message prive envoye avec succes.''), c2))))
          else
            (if falsy_num (mb_class_id b)
             then (json 400
                     (Message ''L ID de la classe est requis pour un message public.''), c)
             else
               (case execute (select_class_membership (num_of (mb_class_id b)) sender_id) c of
                  (classMembership, c1) \<Rightarrow>
                    if length classMembership = 0
                    then (json 403
                            (Message
                               ''Vous devez etre membre de cette classe pour y envoyer un message public.''),
                          c1)
                    else
                      (case execute (select_user_role sender_id) c1 of
                         (senderRole, c2) \<Rightarrow>
                           if length senderRole = 0
                              \<or> hd senderRole \<notin> {''Professeur'', ''Coordinateur''}
                           then (json 403
                                   (Message
                                      ''Seuls les professeurs ou coordinateurs peuvent envoyer des messages publics.''),
                                 c2)
                           else
                             (case execute_write
                                     (insert_message sender_id None (mb_class_id b)
                                        (text_of (mb_content b)) ''public'') c2 of
                                (_, c3) \<Rightarrow>
                                  (json 201 (Message ''Message public envoye avec succes.''),
                                   c3))))))"

definition post_messages :: "(string \<Rightarrow> claims option) \<Rightarrow> message_body handler" where
  "post_messages verify = route [auth verify] (with_user message_handler)"

subsection \<open>POST /api/projects\<close>

text \<open>The handler checks none of the body's fields before it binds them.\<close>

record project_body =
  pb_class_id :: int
  pb_titre :: "string option"
  pb_description :: "string option"
  pb_date_debut :: "string option"
  pb_date_fin :: "string option"

text \<open>
  \<^verbatim>\<open>SELECT * FROM Classes WHERE id = ? AND (professeur_id = ? OR EXISTS (SELECT 1 FROM
  Users WHERE id = ? AND role = 'Coordinateur'))\<close>
\<close>

definition select_class_owner :: "int \<Rightarrow> int \<Rightarrow> db \<Rightarrow> class_row list" where
  "select_class_owner cid uid c =
     filter (\<lambda>r. c_id r = cid \<and>
                 (c_professeur_id r = uid \<or>
                  filter (\<lambda>w. u_id w = uid \<and> u_role w = ''Coordinateur'') (rows (Users c)) \<noteq> []))
            (rows (Classes c))"

text \<open>\<^verbatim>\<open>SELECT * FROM ClassMembers WHERE class_id = ? AND user_id = ?\<close>\<close>

definition select_class_member :: "int \<Rightarrow> int \<Rightarrow> db \<Rightarrow> classmember_row list" where
  "select_class_member cid uid c =
     filter (\<lambda>m. cm_class_id m = cid \<and> cm_user_id m = uid) (ClassMembers c)"

text \<open>
  \<^verbatim>\<open>INSERT INTO Projets (class_id, titre, description, date_debut, date_fin) VALUES (?, ?, ?, ?, ?)\<close>
\<close>

definition insert_projet ::
  "int \<Rightarrow> string option \<Rightarrow> string option \<Rightarrow> string option \<Rightarrow> string option \<Rightarrow> db \<Rightarrow> int \<times> db"
  where
  "insert_projet cid ti de dd df c =
     (case insert_row (\<lambda>i. \<lparr>p_id = i, p_class_id = cid, p_titre = ti, p_description = de,
                              p_date_debut = dd, p_date_fin = df\<rparr>) (Projets c) of
        (i, t) \<Rightarrow> (i, c\<lparr>Projets := t\<rparr>))"

definition project_handler :: "claims \<Rightarrow> project_body \<Rightarrow> db \<Rightarrow> response \<times> db" where
  "project_handler u b d =
     (let class_id = pb_class_id b; user_id = tok_id u in
      case getConnection d of
        None \<Rightarrow>
          (json 500 (Message ''Erreur interne du serveur lors de la creation du projet.''),
           touch d)
      | Some c \<Rightarrow>
          (case execute (select_class_owner class_id user_id) c of
             (isClassOwner, c1) \<Rightarrow>
               if length isClassOwner = 0 \<and> tok_role u \<noteq> ''Coordinateur''
               then (json 403
                       (Message
                          ''Vous n avez pas la permission de creer un projet pour cette classe.''),
                     c1)
               else
                 (case (if tok_role u = ''Coordinateur''
                        then (case execute (select_class_member class_id user_id) c1 of
                                (isMember, c2) \<Rightarrow> (length isMember = 0, c2))
                        else (False, c1)) of
                    (refused, c2) \<Rightarrow>
                      if refused
                      then (json 403
                              (Message
                                 ''En tant que Coordinateur, vous devez etre membre de la classe pour creer un projet.''),
                            c2)
                      else
                        (case execute_write
                                (insert_projet class_id (pb_titre b) (pb_description b)
                                   (pb_date_debut b) (pb_date_fin b)) c2 of
                           (insertId, c3) \<Rightarrow>
                             (json 201 (MessageId ''Projet cree avec succes.'' insertId),
                              c3)))))"

definition post_projects :: "(string \<Rightarrow> claims option) \<Rightarrow> project_body handler" where
  "post_projects verify =
     route [auth verify, authorizeRole [''Professeur'', ''Coordinateur'']]
       (with_user project_handler)"

subsection \<open>POST /api/groups\<close>

record group_body =
  gr_projet_id :: int
  gr_nom_groupe :: "string option"
  gr_description :: "string option"

text \<open>
  \<^verbatim>\<open>SELECT P.class_id, C.professeur_id FROM Projets P JOIN Classes C ON P.class_id = C.id
  WHERE P.id = ?\<close>
\<close>

definition select_project_info :: "int \<Rightarrow> db \<Rightarrow> (int \<times> int) list" where
  "select_project_info pid c =
     concat (map (\<lambda>p. map (\<lambda>r. (p_class_id p, c_professeur_id r))
                          (filter (\<lambda>r. c_id r = p_class_id p) (rows (Classes c))))
                 (filter (\<lambda>p. p_id p = pid) (rows (Projets c))))"

text \<open>\<^verbatim>\<open>INSERT INTO Groupes (projet_id, nom_groupe, description) VALUES (?, ?, ?)\<close>\<close>

definition insert_groupe :: "int \<Rightarrow> string option \<Rightarrow> string option \<Rightarrow> db \<Rightarrow> int \<times> db" where
  "insert_groupe pid n de c =
     (case insert_row (\<lambda>i. \<lparr>g_id = i, g_projet_id = pid, g_nom_groupe = n,
                              g_description = de\<rparr>) (Groupes c) of
        (i, t) \<Rightarrow> (i, c\<lparr>Groupes := t\<rparr>))"

definition group_handler :: "claims \<Rightarrow> group_body \<Rightarrow> db \<Rightarrow> response \<times> db" where
  "group_handler u b d =
     (let projet_id = gr_projet_id b; user_id = tok_id u in
      case getConnection d of
        None \<Rightarrow>
          (json 500 (Message ''Erreur interne du serveur lors de la creation du groupe.''),
           touch d)
      | Some c \<Rightarrow>
          (case execute (select_project_info projet_id) c of
             (projectInfo, c1) \<Rightarrow>
               (case projectInfo of
                  [] \<Rightarrow> (json 404 (Message ''Projet non trouve.''), c1)
                | (class_id, professeur_id) # _ \<Rightarrow>
                    if professeur_id \<noteq> user_id \<and> tok_role u \<noteq> ''Coordinateur''
                    then (json 403
                            (Message
                               ''Vous n avez pas la permission de creer un groupe pour ce projet.''),
                          c1)
                    else
                      (case (if tok_role u = ''Coordinateur''
                             then (case execute (select_class_member class_id user_id) c1 of
                                     (isMember, c2) \<Rightarrow> (length isMember = 0, c2))
                             else (False, c1)) of
                         (refused, c2) \<Rightarrow>
                           if refused
                           then (json 403
                                   (Message
                                      ''En tant que Coordinateur, vous devez etre membre de la classe du projet pour creer un groupe.''),
                                 c2)
                           else
                             (case execute_write
                                     (insert_groupe projet_id (gr_nom_groupe b)
                                        (gr_description b)) c2 of
                                (insertId, c3) \<Rightarrow>
                                  (json 201
                                     (MessageId ''Groupe cree avec succes.'' insertId),
                                   c3))))))"

definition post_groups :: "(string \<Rightarrow> claims option) \<Rightarrow> group_body handler" where
  "post_groups verify =
     route [auth verify, authorizeRole [''Professeur'', ''Coordinateur'']]
       (with_user group_handler)"

subsection \<open>POST /api/groups/:groupId/members and DELETE /api/groups/:groupId/members/:userId\<close>

text \<open>
  \<^verbatim>\<open>SELECT G.projet_id, P.class_id, C.professeur_id FROM Groupes G JOIN Projets P ON
  G.projet_id = P.id JOIN Classes C ON P.class_id = C.id WHERE G.id = ?\<close>
\<close>

definition select_group_info :: "int \<Rightarrow> db \<Rightarrow> (int \<times> int \<times> int) list" where
  "select_group_info gid c =
     concat (map (\<lambda>g.
        concat (map (\<lambda>p. map (\<lambda>r. (g_projet_id g, p_class_id p, c_professeur_id r))
                             (filter (\<lambda>r. c_id r = p_class_id p) (rows (Classes c))))
                    (filter (\<lambda>p. p_id p = g_projet_id g) (rows (Projets c)))))
       (filter (\<lambda>g. g_id g = gid) (rows (Groupes c))))"

text \<open>\<^verbatim>\<open>SELECT id, role FROM Users WHERE id = ?\<close>\<close>

definition select_user_id_role :: "int \<Rightarrow> db \<Rightarrow> (int \<times> string) list" where
  "select_user_id_role k c =
     map (\<lambda>r. (u_id r, u_role r)) (filter (\<lambda>r. u_id r = k) (rows (Users c)))"

text \<open>\<^verbatim>\<open>SELECT * FROM MembresGroupe WHERE group_id = ? AND user_id = ?\<close>\<close>

definition select_group_member :: "int \<Rightarrow> int \<Rightarrow> db \<Rightarrow> membregroupe_row list" where
  "select_group_member gid uid c =
     filter (\<lambda>m. mg_group_id m = gid \<and> mg_user_id m = uid) (MembresGroupe c)"

text \<open>\<^verbatim>\<open>INSERT INTO MembresGroupe (group_id, user_id) VALUES (?, ?)\<close>\<close>

definition insert_group_member :: "int \<Rightarrow> int \<Rightarrow> db \<Rightarrow> unit \<times> db" where
  "insert_group_member gid uid c =
     ((), c\<lparr>MembresGroupe := MembresGroupe c @ [\<lparr>mg_group_id = gid, mg_user_id = uid\<rparr>]\<rparr>)"

text \<open>
  \<^verbatim>\<open>DELETE FROM MembresGroupe WHERE group_id = ? AND user_id = ?\<close>; the result is
  \<^verbatim>\<open>affectedRows\<close>.
\<close>

definition delete_group_member :: "int \<Rightarrow> int \<Rightarrow> db \<Rightarrow> nat \<times> db" where
  "delete_group_member gid uid c =
     (length (filter (\<lambda>m. mg_group_id m = gid \<and> mg_user_id m = uid) (MembresGroupe c)),
      c\<lparr>MembresGroupe :=
           filter (\<lambda>m. \<not> (mg_group_id m = gid \<and> mg_user_id m = uid)) (MembresGroupe c)\<rparr>)"

record member_add_body =
  ma_groupId :: int
  ma_user_id_to_add :: int

definition member_add_handler :: "claims \<Rightarrow> member_add_body \<Rightarrow> db \<Rightarrow> response \<times> db" where
  "member_add_handler u b d =
     (let groupId = ma_groupId b; user_id_to_add = ma_user_id_to_add b;
          admin_user_id = tok_id u in
      case getConnection d of
        None \<Rightarrow>
          (json 500 (Message ''Erreur interne du serveur lors de l ajout du membre.''),
           touch d)
      | Some c \<Rightarrow>
          (case execute (select_group_info groupId) c of
             (groupInfo, c1) \<Rightarrow>
               (case groupInfo of
                  [] \<Rightarrow> (json 404 (Message ''Groupe non trouve.''), c1)
                | (projet_id, class_id, professeur_id) # _ \<Rightarrow>
                    if professeur_id \<noteq> admin_user_id \<and> tok_role u \<noteq> ''Coordinateur''
                    then (json 403
                            (Message ''Vous n avez pas la permission de modifier ce groupe.''),
                          c1)
                    else
                      (case (if tok_role u = ''Coordinateur''
                             then (case execute (select_class_member class_id admin_user_id)
                                          c1 of
                                     (isMember, c2) \<Rightarrow> (length isMember = 0, c2))
                             else (False, c1)) of
                         (refused, c2) \<Rightarrow>
                           if refused
                           then (json 403
                                   (Message
                                      ''En tant que Coordinateur, vous devez etre membre de la classe du projet du groupe pour le modifier.''),
                                 c2)
                           else
                             (case execute (select_user_id_role user_id_to_add) c2 of
                                (userToAddInfo, c3) \<Rightarrow>
                                  if length userToAddInfo = 0
                                     \<or> snd (hd userToAddInfo) \<noteq> ''Etudiant''
                                  then (json 400
                                          (Message
                                             ''L utilisateur a ajouter n existe pas ou n est pas un etudiant.''),
                                        c3)
                                  else
                                    (case execute
                                            (select_class_member class_id user_id_to_add)
                                            c3 of
                                       (isStudentInClass, c4) \<Rightarrow>
                                         if length isStudentInClass = 0
                                         then (json 400
                                                 (Message
                                                    ''L etudiant n est pas membre de la classe de ce projet.''),
                                               c4)
                                         else
                                           (case execute
                                                   (select_group_member groupId
                                                      user_id_to_add) c4 of
                                              (existingMember, c5) \<Rightarrow>
                                                if length existingMember > 0
                                                then (json 409
                                                        (Message
                                                           ''Cet utilisateur est deja membre de ce groupe.''),
                                                      c5)
                                                else
                                                  (case execute_write
                                                          (insert_group_member groupId
                                                             user_id_to_add) c5 of
                                                     (_, c6) \<Rightarrow>
                                                       (json 200
                                                          (Message
                                                             ''Membre ajoute au groupe avec succes.''),
                                                        c6)))))))))"

definition post_group_members :: "(string \<Rightarrow> claims option) \<Rightarrow> member_add_body handler" where
  "post_group_members verify =
     route [auth verify, authorizeRole [''Professeur'', ''Coordinateur'']]
       (with_user member_add_handler)"

record member_delete_params =
  md_groupId :: int
  md_userId :: int

definition member_delete_handler ::
  "claims \<Rightarrow> member_delete_params \<Rightarrow> db \<Rightarrow> response \<times> db" where
  "member_delete_handler u b d =
     (let groupId = md_groupId b; userId = md_userId b; admin_user_id = tok_id u in
      case getConnection d of
        None \<Rightarrow>
          (json 500
             (Message ''Erreur interne du serveur lors de la suppression du membre.''),
           touch d)
      | Some c \<Rightarrow>
          (case execute (select_group_info groupId) c of
             (groupInfo, c1) \<Rightarrow>
               (case groupInfo of
                  [] \<Rightarrow> (json 404 (Message ''Groupe non trouve.''), c1)
                | (projet_id, class_id, professeur_id) # _ \<Rightarrow>
                    if professeur_id \<noteq> admin_user_id \<and> tok_role u \<noteq> ''Coordinateur''
                    then (json 403
                            (Message ''Vous n avez pas la permission de modifier ce groupe.''),
                          c1)
                    else
                      (case (if tok_role u = ''Coordinateur''
                             then (case execute (select_class_member class_id admin_user_id)
                                          c1 of
                                     (isMember, c2) \<Rightarrow> (length isMember = 0, c2))
                             else (False, c1)) of
                         (refused, c2) \<Rightarrow>
                           if refused
                           then (json 403
                                   (Message
                                      ''En tant que Coordinateur, vous devez etre membre de la classe du projet du groupe pour le modifier.''),
                                 c2)
                           else
                             (case execute_write (delete_group_member groupId userId) c2 of
                                (affectedRows, c3) \<Rightarrow>
                                  if affectedRows = 0
                                  then (json 404
                                          (Message ''Membre non trouve dans ce groupe.''), c3)
                                  else (json 200
                                          (Message
                                             ''Membre supprime du groupe avec succes.''),
                                        c3))))))"

definition delete_group_members ::
  "(string \<Rightarrow> claims option) \<Rightarrow> member_delete_params handler" where
  "delete_group_members verify =
     route [auth verify, authorizeRole [''Professeur'', ''Coordinateur'']]
       (with_user member_delete_handler)"

subsection \<open>PUT /api/users/:userId/role and DELETE /api/users/:userId\<close>

record role_body =
  ro_userId :: int
  ro_role :: "string option"

text \<open>\<^verbatim>\<open>UPDATE Users SET role = ? WHERE id = ?\<close>; the result is \<^verbatim>\<open>affectedRows\<close>.\<close>

definition update_user_role :: "string \<Rightarrow> int \<Rightarrow> db \<Rightarrow> nat \<times> db" where
  "update_user_role r k c =
     (length (filter (\<lambda>w. u_id w = k) (rows (Users c))),
      c\<lparr>Users := (Users c)\<lparr>rows :=
           map (\<lambda>w. if u_id w = k then w\<lparr>u_role := r\<rparr> else w) (rows (Users c))\<rparr>\<rparr>)"

definition role_handler :: "claims \<Rightarrow> role_body \<Rightarrow> db \<Rightarrow> response \<times> db" where
  "role_handler u b d =
     (let userId = ro_userId b; requestingUserId = tok_id u in
      if falsy (ro_role b)
         \<or> text_of (ro_role b) \<notin> {''Etudiant'', ''Professeur'', ''Coordinateur''}
      then (json 400 (Message ''Role invalide fourni.''), d)
      else if userId = requestingUserId \<and> text_of (ro_role b) \<noteq> ''Coordinateur''
      then (json 403 (Message ''Un Coordinateur ne peut pas se retrograder lui-meme.''), d)
      else
        (case getConnection d of
           None \<Rightarrow>
             (json 500
                (Message ''Erreur interne du serveur lors de la modification du role.''),
              touch d)
         | Some c \<Rightarrow>
             (case execute_write (update_user_role (text_of (ro_role b)) userId) c of
                (affectedRows, c1) \<Rightarrow>
                  if affectedRows = 0
                  then (json 404 (Message ''Utilisateur non trouve.''), c1)
                  else (json 200
                          (MessageId ''Role de l utilisateur mis a jour.'' userId), c1))))"

definition put_user_role :: "(string \<Rightarrow> claims option) \<Rightarrow> role_body handler" where
  "put_user_role verify =
     route [auth verify, authorizeRole [''Coordinateur'']] (with_user role_handler)"

text \<open>\<^verbatim>\<open>SELECT COUNT(*) AS count FROM Users WHERE role = 'Coordinateur'\<close>\<close>

definition count_coordinators :: "db \<Rightarrow> nat" where
  "count_coordinators c = length (filter (\<lambda>w. u_role w = ''Coordinateur'') (rows (Users c)))"

text \<open>\<^verbatim>\<open>DELETE FROM Users WHERE id = ?\<close>; the result is \<^verbatim>\<open>affectedRows\<close>.\<close>

definition delete_user :: "int \<Rightarrow> db \<Rightarrow> nat \<times> db" where
  "delete_user k c =
     (length (filter (\<lambda>w. u_id w = k) (rows (Users c))),
      c\<lparr>Users := (Users c)\<lparr>rows := filter (\<lambda>w. u_id w \<noteq> k) (rows (Users c))\<rparr>\<rparr>)"

definition user_delete_handler :: "claims \<Rightarrow> int \<Rightarrow> db \<Rightarrow> response \<times> db" where
  "user_delete_handler u userId d =
     (let requestingUserId = tok_id u in
      if userId = requestingUserId
      then (json 403 (Message ''Un Coordinateur ne peut pas supprimer son propre compte.''), d)
      else
        (case getConnection d of
           None \<Rightarrow>
             (json 500
                (Message
                   ''Erreur interne du serveur lors de la suppression de l utilisateur.''),
              touch d)
         | Some c \<Rightarrow>
             (case execute (select_user_role userId) c of
                (userToDelete, c1) \<Rightarrow>
                  (case (if length userToDelete > 0 \<and> hd userToDelete = ''Coordinateur''
                         then (case execute count_coordinators c1 of
                                 (allCoordinators, c2) \<Rightarrow> (allCoordinators = 1, c2))
                         else (False, c1)) of
                     (refused, c2) \<Rightarrow>
                       if refused
                       then (json 403
                               (Message
                                  ''Impossible de supprimer le seul compte Coordinateur.''),
                             c2)
                       else
                         (case execute_write (delete_user userId) c2 of
                            (affectedRows, c3) \<Rightarrow>
                              if affectedRows = 0
                              then (json 404 (Message ''Utilisateur non trouve.''), c3)
                              else (json 200
                                      (MessageId ''Utilisateur supprime avec succes.'' userId),
                                    c3))))))"

definition delete_user_route :: "(string \<Rightarrow> claims option) \<Rightarrow> int handler" where
  "delete_user_route verify =
     route [auth verify, authorizeRole [''Coordinateur'']] (with_user user_delete_handler)"

section \<open>Notions used in the properties\<close>

text \<open>The answer of \<^verbatim>\<open>auth\<close> to a request that it does not let through.\<close>

definition refusal :: "string option \<Rightarrow> response" where
  "refusal tk =
     json 401 (Message (if falsy tk then ''Aucun token, autorisation refusee''
                        else ''Token non valide''))"

text \<open>The resource that a request names is in the store.\<close>

definition class_exists :: "db \<Rightarrow> int \<Rightarrow> bool" where
  "class_exists c k = (k \<in> set (map c_id (rows (Classes c))))"

definition task_exists :: "db \<Rightarrow> int \<Rightarrow> bool" where
  "task_exists c k = (k \<in> set (map t_id (rows (Tasks c))))"

definition submission_exists :: "db \<Rightarrow> int \<Rightarrow> bool" where
  "submission_exists c k = (k \<in> set (map s_id (rows (Submissions c))))"

definition project_exists :: "db \<Rightarrow> int \<Rightarrow> bool" where
  "project_exists c k = (k \<in> set (map p_id (rows (Projets c))))"

definition group_exists :: "db \<Rightarrow> int \<Rightarrow> bool" where
  "group_exists c k = (k \<in> set (map g_id (rows (Groupes c))))"

text \<open>The \<open>Submissions\<close> rows of a (task, student) pair.\<close>

definition submissions_of :: "int \<Rightarrow> int \<Rightarrow> db \<Rightarrow> submission_row list" where
  "submissions_of tid sid c =
     filter (\<lambda>r. s_task_id r = tid \<and> s_student_id r = sid) (rows (Submissions c))"


section \<open>A sample store\<close>

text \<open>
  One coordinator (1), three teachers (2 owns class 10; 4 and 6 own nothing), two
  students (3, 5) enrolled in class 10 and one (7) enrolled nowhere, one task (20), one
  submission (50, by student 5), one project (30) with one group (40). Five tokens
  verify to users 1, 2, 3, 6 and 7 with their present roles.
\<close>

definition awa :: claims where
  "awa = \<lparr>tok_id = 1, tok_email = ''awa@ecole.sn'', tok_role = ''Coordinateur''\<rparr>"

definition moussa :: claims where
  "moussa = \<lparr>tok_id = 2, tok_email = ''moussa@ecole.sn'', tok_role = ''Professeur''\<rparr>"

definition fatou :: claims where
  "fatou = \<lparr>tok_id = 3, tok_email = ''fatou@ecole.sn'', tok_role = ''Etudiant''\<rparr>"

text \<open>A token issued to user 4 when he was a coordinator; the store has him as a teacher now.\<close>

definition omar :: claims where
  "omar = \<lparr>tok_id = 4, tok_email = ''omar@ecole.sn'', tok_role = ''Coordinateur''\<rparr>"

definition ibou :: claims where
  "ibou = \<lparr>tok_id = 6, tok_email = ''ibou@ecole.sn'', tok_role = ''Professeur''\<rparr>"

definition aly :: claims where
  "aly = \<lparr>tok_id = 7, tok_email = ''aly@ecole.sn'', tok_role = ''Etudiant''\<rparr>"

definition sample_verify :: "string \<Rightarrow> claims option" where
  "sample_verify t =
     (if t = ''coord'' then Some awa
      else if t = ''prof'' then Some moussa
      else if t = ''etud'' then Some fatou
      else if t = ''ancien'' then Some omar
      else if t = ''prof2'' then Some ibou
      else if t = ''etud2'' then Some aly
      else None)"

definition sample_db :: db where
  "sample_db =
     \<lparr>Users = \<lparr>rows =
         [\<lparr>u_id = 1, u_nom = ''Diallo'', u_prenom = ''Awa'', u_email = ''awa@ecole.sn'',
           u_motDePasse = ''h1'', u_role = ''Coordinateur''\<rparr>,
          \<lparr>u_id = 2, u_nom = ''Ndiaye'', u_prenom = ''Moussa'', u_email = ''moussa@ecole.sn'',
           u_motDePasse = ''h2'', u_role = ''Professeur''\<rparr>,
          \<lparr>u_id = 3, u_nom = ''Sow'', u_prenom = ''Fatou'', u_email = ''fatou@ecole.sn'',
           u_motDePasse = ''h3'', u_role = ''Etudiant''\<rparr>,
          \<lparr>u_id = 4, u_nom = ''Ba'', u_prenom = ''Omar'', u_email = ''omar@ecole.sn'',
           u_motDePasse = ''h4'', u_role = ''Professeur''\<rparr>,
          \<lparr>u_id = 5, u_nom = ''Kane'', u_prenom = ''Binta'', u_email = ''binta@ecole.sn'',
           u_motDePasse = ''h5'', u_role = ''Etudiant''\<rparr>,
          \<lparr>u_id = 6, u_nom = ''Sarr'', u_prenom = ''Ibou'', u_email = ''ibou@ecole.sn'',
           u_motDePasse = ''h6'', u_role = ''Professeur''\<rparr>,
          \<lparr>u_id = 7, u_nom = ''Cisse'', u_prenom = ''Aly'', u_email = ''aly@ecole.sn'',
           u_motDePasse = ''h7'', u_role = ''Etudiant''\<rparr>],
         auto_increment = 8\<rparr>,
      Classes = \<lparr>rows =
         [\<lparr>c_id = 10, c_nom = ''Algebre'', c_description = None, c_code = ''ABC123'',
           c_professeur_id = 2\<rparr>],
         auto_increment = 11\<rparr>,
      UserClasses = \<lparr>rows =
         [\<lparr>uc_id = 1, uc_user_id = 2, uc_class_id = 10, uc_role_dans_classe = ''Professeur''\<rparr>,
          \<lparr>uc_id = 2, uc_user_id = 3, uc_class_id = 10, uc_role_dans_classe = ''Etudiant''\<rparr>,
          \<lparr>uc_id = 3, uc_user_id = 5, uc_class_id = 10, uc_role_dans_classe = ''Etudiant''\<rparr>],
         auto_increment = 4\<rparr>,
      ClassMembers =
         [\<lparr>cm_class_id = 10, cm_user_id = 3\<rparr>, \<lparr>cm_class_id = 10, cm_user_id = 5\<rparr>],
      Announcements = \<lparr>rows = [], auto_increment = 1\<rparr>,
      Documentations = \<lparr>rows = [], auto_increment = 1\<rparr>,
      Tasks = \<lparr>rows =
         [\<lparr>t_id = 20, t_class_id = 10, t_professeur_id = 2, t_titre = ''Devoir 1'',
           t_description = None, t_date_limite = ''2025-06-30''\<rparr>],
         auto_increment = 21\<rparr>,
      Submissions = \<lparr>rows =
         [\<lparr>s_id = 50, s_task_id = 20, s_student_id = 5, s_file_path = None,
           s_content = Some ''copie'', s_submitted_at = 100, s_grade = None,
           s_correction_feedback = None\<rparr>],
         auto_increment = 51\<rparr>,
      Messages = \<lparr>rows = [], auto_increment = 1\<rparr>,
      Projets = \<lparr>rows =
         [\<lparr>p_id = 30, p_class_id = 10, p_titre = Some ''Projet 1'', p_description = None,
           p_date_debut = None, p_date_fin = None\<rparr>],
         auto_increment = 31\<rparr>,
      Groupes = \<lparr>rows =
         [\<lparr>g_id = 40, g_projet_id = 30, g_nom_groupe = Some ''Groupe A'',
           g_description = None\<rparr>],
         auto_increment = 41\<rparr>,
      MembresGroupe = [\<lparr>mg_group_id = 40, mg_user_id = 3\<rparr>],
      now = 1000, reachable = True, accesses = 0\<rparr>"

definition sample_request :: "string \<Rightarrow> 'p \<Rightarrow> 'p request" where
  "sample_request t p = \<lparr>token = Some t, user = None, payload = p\<rparr>"

definition sample_sign :: "claims \<Rightarrow> string" where
  "sample_sign c = ''jwt:'' @ tok_email c @ '':'' @ tok_role c"

definition sample_hash :: "string \<Rightarrow> string" where
  "sample_hash pw = ''bcrypt:'' @ pw"

definition anonymous_request :: "'p \<Rightarrow> 'p request" where
  "anonymous_request p = \<lparr>token = None, user = None, payload = p\<rparr>"

text \<open>Bodies and path parameters of sample requests; 99 is the id of no row.\<close>

definition annonce_99 :: announcement_body where
  "annonce_99 =
     \<lparr>ab_class_id = Some 99,
      ab_titre = Some ''Avis'',
      ab_contenu = Some ''Bonjour''\<rparr>"

definition cours_99 :: documentation_body where
  "cours_99 =
     \<lparr>db_class_id = Some 99,
      db_titre = Some ''Cours'',
      db_description = None,
      db_file_path = None\<rparr>"

definition devoir_99 :: task_body where
  "devoir_99 =
     \<lparr>tb_class_id = Some 99,
      tb_titre = Some ''Devoir 2'',
      tb_description = None,
      tb_date_limite = Some ''2025-07-15''\<rparr>"

definition copie_99 :: submit_body where
  "copie_99 =
     \<lparr>sb_taskId = 99,
      sb_file_path = None,
      sb_content = Some ''copie''\<rparr>"

definition copie_20 :: submit_body where
  "copie_20 =
     \<lparr>sb_taskId = 20,
      sb_file_path = None,
      sb_content = Some ''copie''\<rparr>"

definition note_99 :: grade_body where
  "note_99 =
     \<lparr>gb_submissionId = 99,
      gb_grade = Some 15,
      gb_feedback = Some ''Bien''\<rparr>"

definition projet_99 :: project_body where
  "projet_99 =
     \<lparr>pb_class_id = 99,
      pb_titre = Some ''Projet 2'',
      pb_description = None,
      pb_date_debut = None,
      pb_date_fin = None\<rparr>"

definition groupe_99 :: group_body where
  "groupe_99 =
     \<lparr>gr_projet_id = 99,
      gr_nom_groupe = Some ''Groupe B'',
      gr_description = None\<rparr>"

definition groupe_30 :: group_body where
  "groupe_30 =
     \<lparr>gr_projet_id = 30,
      gr_nom_groupe = Some ''Groupe B'',
      gr_description = None\<rparr>"

definition ajout_99 :: member_add_body where
  "ajout_99 =
     \<lparr>ma_groupId = 99,
      ma_user_id_to_add = 5\<rparr>"

definition ajout_40 :: member_add_body where
  "ajout_40 =
     \<lparr>ma_groupId = 40,
      ma_user_id_to_add = 5\<rparr>"

definition retrait_99 :: member_delete_params where
  "retrait_99 =
     \<lparr>md_groupId = 99,
      md_userId = 3\<rparr>"

definition retrait_40 :: member_delete_params where
  "retrait_40 =
     \<lparr>md_groupId = 40,
      md_userId = 3\<rparr>"

definition projet_10 :: project_body where
  "projet_10 =
     \<lparr>pb_class_id = 10,
      pb_titre = Some ''Projet 2'',
      pb_description = None,
      pb_date_debut = None,
      pb_date_fin = None\<rparr>"

section \<open>Properties\<close>

subsection \<open>The middleware chain\<close>

lemma authenticated_iff:
  "authenticated verify req u \<longleftrightarrow> \<not> falsy (token req) \<and> verify (text_of
      (token req)) = Some u"
  by (auto simp: authenticated_def auth_def split: option.splits)


lemma route_pass2:
  assumes "authenticated verify req u" "tok_role u \<in> set roles"
  shows "route [auth verify, authorizeRole roles] (with_user h) req d = h u (payload req) d"
  using assms
  by (auto simp: authenticated_iff auth_def authorizeRole_def with_user_def)

lemma route_gate2:
  assumes "authenticated verify req u" "tok_role u \<notin> set roles"
  shows "route [auth verify, authorizeRole roles] h req d =
           (json 403 (Message ''Acces non autorise''), d)"
  using assms by (auto simp: authenticated_iff auth_def authorizeRole_def)

lemma teacher_route:
  assumes "authenticated verify req u" and "tok_role u = ''Professeur''"
  shows "route [auth verify, authorizeRole [''Professeur'']] (with_user h) req d
           = h u (payload req) d"
    and "route [auth verify, authorizeRole [''Professeur'', ''Coordinateur'']] (with_user h) req d
           = h u (payload req) d"
proof -
  have "tok_role u \<in> set [''Professeur'']" using assms(2) by simp
  from route_pass2 [OF assms(1) this]
  show "route [auth verify, authorizeRole [''Professeur'']] (with_user h) req d
           = h u (payload req) d" .
  have "tok_role u \<in> set [''Professeur'', ''Coordinateur'']" using assms(2) by simp
  from route_pass2 [OF assms(1) this]
  show "route [auth verify, authorizeRole [''Professeur'', ''Coordinateur'']] (with_user h) req d
           = h u (payload req) d" .
qed

lemma staff_route:
  assumes "authenticated verify req u" and "tok_role u \<in> {''Professeur'', ''Coordinateur''}"
  shows "route [auth verify, authorizeRole [''Professeur'', ''Coordinateur'']] (with_user h) req d
           = h u (payload req) d"
proof -
  have "tok_role u \<in> set [''Professeur'', ''Coordinateur'']" using assms(2) by simp
  from route_pass2 [OF assms(1) this] show ?thesis .
qed

lemma coordinator_route:
  assumes "authenticated verify req u" and "tok_role u = ''Coordinateur''"
  shows "route [auth verify, authorizeRole [''Professeur'', ''Coordinateur'']] (with_user h) req d
           = h u (payload req) d"
proof -
  have "tok_role u \<in> set [''Professeur'', ''Coordinateur'']" using assms(2) by simp
  from route_pass2 [OF assms(1) this] show ?thesis .
qed

lemma submit_route:
  assumes "authenticated verify req u" and "tok_role u = ''Etudiant''"
  shows "post_tasks_submit verify req d = submit_handler u (payload req) d"
proof -
  have "tok_role u \<in> set [''Etudiant'']" using assms(2) by simp
  from route_pass2 [OF assms(1) this] show ?thesis
    by (simp add: post_tasks_submit_def)
qed

lemma gate_teacher:
  assumes "authenticated verify req u" and "tok_role u \<noteq> ''Professeur''"
  shows "route [auth verify, authorizeRole [''Professeur'']] h req d
           = (json 403 (Message ''Acces non autorise''), d)"
proof -
  have "tok_role u \<notin> set [''Professeur'']" using assms(2) by simp
  from route_gate2 [OF assms(1) this] show ?thesis .
qed

lemma gate_student:
  assumes "authenticated verify req u" and "tok_role u \<noteq> ''Etudiant''"
  shows "route [auth verify, authorizeRole [''Etudiant'']] h req d
           = (json 403 (Message ''Acces non autorise''), d)"
proof -
  have "tok_role u \<notin> set [''Etudiant'']" using assms(2) by simp
  from route_gate2 [OF assms(1) this] show ?thesis .
qed

lemma gate_staff:
  assumes "authenticated verify req u" and "tok_role u \<notin> {''Professeur'', ''Coordinateur''}"
  shows "route [auth verify, authorizeRole [''Professeur'', ''Coordinateur'']] h req d
           = (json 403 (Message ''Acces non autorise''), d)"
proof -
  have "tok_role u \<notin> set [''Professeur'', ''Coordinateur'']" using assms(2) by simp
  from route_gate2 [OF assms(1) this] show ?thesis .
qed

lemma auth_refuses:
  assumes "falsy tk \<or> verify (text_of tk) = None"
  shows "auth verify \<lparr>token = tk, user = usr, payload = p\<rparr> = Inl (refusal tk)"
  using assms by (auto simp: auth_def refusal_def)

lemma route_auth_refuses:
  assumes "falsy tk \<or> verify (text_of tk) = None"
  shows "route (auth verify # ms) h \<lparr>token = tk, user = usr, payload = p\<rparr> d = (refusal tk, d)"
  by (simp add: auth_refuses [where verify = verify and tk = tk, OF assms])




subsection \<open>Store accesses, request fields, missing resources\<close>

lemmas store_defs = getConnection_def execute_def execute_write_def touch_def


lemma reads_ignore_accesses [simp]:
  "select_users_all (c\<lparr>accesses := n\<rparr>) = select_users_all c"
  "select_user_ids_by_email e (c\<lparr>accesses := n\<rparr>) = select_user_ids_by_email e c"
  "select_class_ids_by_code k (c\<lparr>accesses := n\<rparr>) = select_class_ids_by_code k c"
  "select_enrollment uid cid (c\<lparr>accesses := n\<rparr>) = select_enrollment uid cid c"
  "select_owned_class cid pid (c\<lparr>accesses := n\<rparr>) = select_owned_class cid pid c"
  "select_task_class tid (c\<lparr>accesses := n\<rparr>) = select_task_class tid c"
  "select_submission_ids tid sid (c\<lparr>accesses := n\<rparr>) = select_submission_ids tid sid c"
  "select_owned_task tid pid (c\<lparr>accesses := n\<rparr>) = select_owned_task tid pid c"
  "select_task_submissions tid (c\<lparr>accesses := n\<rparr>) = select_task_submissions tid c"
  "select_submission_professeur i (c\<lparr>accesses := n\<rparr>) = select_submission_professeur i c"
  "select_submission_detail i (c\<lparr>accesses := n\<rparr>) = select_submission_detail i c"
  "select_user_ids i (c\<lparr>accesses := n\<rparr>) = select_user_ids i c"
  "select_user_role i (c\<lparr>accesses := n\<rparr>) = select_user_role i c"
  "select_class_membership cid uid (c\<lparr>accesses := n\<rparr>) = select_class_membership cid uid c"
  "select_class_owner cid uid (c\<lparr>accesses := n\<rparr>) = select_class_owner cid uid c"
  "select_class_member cid uid (c\<lparr>accesses := n\<rparr>) = select_class_member cid uid c"
  "select_project_info pid (c\<lparr>accesses := n\<rparr>) = select_project_info pid c"
  "select_group_info gid (c\<lparr>accesses := n\<rparr>) = select_group_info gid c"
  "select_user_id_role i (c\<lparr>accesses := n\<rparr>) = select_user_id_role i c"
  "select_group_member gid uid (c\<lparr>accesses := n\<rparr>) = select_group_member gid uid c"
  "count_coordinators (c\<lparr>accesses := n\<rparr>) = count_coordinators c"
  by (simp_all add: select_users_all_def select_user_ids_by_email_def
      select_class_ids_by_code_def select_enrollment_def select_owned_class_def
      select_task_class_def select_submission_ids_def select_owned_task_def
      select_task_submissions_def select_submission_professeur_def
      select_submission_detail_def select_user_ids_def select_user_role_def
      select_class_membership_def select_class_owner_def select_class_member_def
      select_project_info_def select_group_info_def select_user_id_role_def
      select_group_member_def count_coordinators_def)

lemma frame_later [simp]:
  "select_task_class t (c\<lparr>now := n\<rparr>) = select_task_class t c"
  "select_enrollment uid cid (c\<lparr>now := n\<rparr>) = select_enrollment uid cid c"
  "submissions_of t sid (c\<lparr>now := n\<rparr>) = submissions_of t sid c"
  "select_task_class t (c\<lparr>Submissions := x\<rparr>) = select_task_class t c"
  "select_enrollment uid cid (c\<lparr>Submissions := x\<rparr>) = select_enrollment uid cid c"
  "submissions_of t sid (c\<lparr>accesses := a\<rparr>) = submissions_of t sid c"
  by (simp_all add: select_task_class_def select_enrollment_def submissions_of_def)

lemma falsy_Some [simp]: "falsy (Some s) \<longleftrightarrow> s = []"
  by (simp add: falsy_def)

lemma falsy_None [simp]: "falsy None"
  by (simp add: falsy_def)

lemma text_of_Some [simp]: "text_of (Some s) = s"
  by (simp add: text_of_def)

lemma falsy_num_Some [simp]: "falsy_num (Some n) \<longleftrightarrow> n = 0"
  by (simp add: falsy_num_def)

lemma falsy_num_None [simp]: "falsy_num None"
  by (simp add: falsy_num_def)

lemma num_of_Some [simp]: "num_of (Some n) = n"
  by (simp add: num_of_def)

lemma filter_no_id:
  "k \<notin> set (map f xs) \<Longrightarrow> filter (\<lambda>r. f r = k \<and> P r) xs = []"
  "k \<notin> set (map f xs) \<Longrightarrow> filter (\<lambda>r. f r = k) xs = []"
  by (auto simp: filter_empty_conv)

lemma missing_resource:
  "\<not> class_exists d k \<Longrightarrow> select_owned_class k p d = []"
  "\<not> class_exists d k \<Longrightarrow> select_class_owner k p d = []"
  "\<not> task_exists d k \<Longrightarrow> select_task_class k d = []"
  "\<not> task_exists d k \<Longrightarrow> select_owned_task k p d = []"
  "\<not> submission_exists d k \<Longrightarrow> select_submission_professeur k d = []"
  "\<not> project_exists d k \<Longrightarrow> select_project_info k d = []"
  "\<not> group_exists d k \<Longrightarrow> select_group_info k d = []"
  by (simp_all add: class_exists_def task_exists_def submission_exists_def
      project_exists_def group_exists_def select_owned_class_def select_class_owner_def
      select_task_class_def select_owned_task_def select_submission_professeur_def
      select_project_info_def select_group_info_def filter_no_id)

subsection \<open>The sample store\<close>

lemma sample_authenticated:
  "authenticated sample_verify (sample_request ''coord'' p) awa"
  "authenticated sample_verify (sample_request ''prof'' p) moussa"
  "authenticated sample_verify (sample_request ''etud'' p) fatou"
  "authenticated sample_verify (sample_request ''ancien'' p) omar"
  "authenticated sample_verify (sample_request ''prof2'' p) ibou"
  "authenticated sample_verify (sample_request ''etud2'' p) aly"
  by (simp_all add: authenticated_iff sample_request_def sample_verify_def falsy_def
      text_of_def)

lemma sample_reachable: "reachable sample_db"
  by (simp add: sample_db_def)

lemmas sample_bodies =
  annonce_99_def cours_99_def devoir_99_def copie_99_def copie_20_def
  note_99_def projet_99_def groupe_99_def groupe_30_def ajout_99_def
  ajout_40_def retrait_99_def retrait_40_def projet_10_def

lemma sample_payload [simp]:
  "payload (sample_request t p) = p" "payload (anonymous_request p) = p"
  by (simp_all add: sample_request_def anonymous_request_def)

lemma sample_claims [simp]:
  "tok_id awa = 1" "tok_role awa = ''Coordinateur''"
  "tok_id moussa = 2" "tok_role moussa = ''Professeur''"
  "tok_id fatou = 3" "tok_role fatou = ''Etudiant''"
  "tok_id omar = 4" "tok_role omar = ''Coordinateur''"
  "tok_id ibou = 6" "tok_role ibou = ''Professeur''"
  "tok_id aly = 7" "tok_role aly = ''Etudiant''"
  by (simp_all add: awa_def moussa_def fatou_def omar_def ibou_def aly_def)

subsection \<open>C1: GET /api/users/all\<close>

lemma sorted_by_role:
  "sorted (map uv_role (sort_key (\<lambda>v. (uv_role v, uv_nom v, uv_prenom v)) xs))"
proof -
  let ?f = "\<lambda>v. (uv_role v, uv_nom v, uv_prenom v)"
  have "sorted (map ?f (sort_key ?f xs))" by (rule sorted_sort_key)
  then have "sorted_wrt (\<lambda>x y. ?f x \<le> ?f y) (sort_key ?f xs)" by (simp add: sorted_map)
  then have "sorted_wrt (\<lambda>x y. uv_role x \<le> uv_role y) (sort_key ?f xs)"
    by (rule sorted_wrt_mono_rel[rotated]) (auto simp: less_eq_prod_def)
  then show ?thesis by (simp add: sorted_map)
qed

lemma users_all_handler_ok:
  "reachable d \<Longrightarrow>
   users_all_handler u p d =
     (json 200 (UserList (select_users_all d)), d\<lparr>accesses := accesses d + 2\<rparr>)"
  by (simp add: users_all_handler_def getConnection_def execute_def touch_def)

text \<open>
  Claim C1, as the code has it. The allow-list of the route is
  \<^verbatim>\<open>['Professeur', 'Coordinateur']\<close>: an authenticated caller whose role is
  Coordinateur or Professeur is answered 200 with every row of \<open>Users\<close>, ordered by
  role (then nom, prenom), after two store accesses and no change to any table; a
  caller with any other role is answered 403 by the role gate, without store access.
\<close>

theorem C1_users_all_amended:
  assumes "authenticated verify req u" and "reachable d"
  shows "(tok_role u \<in> {''Professeur'', ''Coordinateur''} \<longrightarrow>
            get_users_all verify req d =
              (json 200 (UserList (select_users_all d)), d\<lparr>accesses := accesses d + 2\<rparr>)
            \<and> sorted (map uv_role (select_users_all d))
            \<and> mset (select_users_all d) = mset (map user_view_of (rows (Users d))))
         \<and> (tok_role u \<notin> {''Professeur'', ''Coordinateur''} \<longrightarrow>
            get_users_all verify req d = (json 403 (Message ''Acces non autorise''), d))"
proof (intro conjI impI)
  assume r: "tok_role u \<in> {''Professeur'', ''Coordinateur''}"
  then have "tok_role u \<in> set [''Professeur'', ''Coordinateur'']" by simp
  from route_pass2 [OF assms(1) this]
  show "get_users_all verify req d =
          (json 200 (UserList (select_users_all d)), d\<lparr>accesses := accesses d + 2\<rparr>)"
    by (simp add: get_users_all_def users_all_handler_ok [OF assms(2)])
  show "sorted (map uv_role (select_users_all d))"
    unfolding select_users_all_def by (rule sorted_by_role)
  show "mset (select_users_all d) = mset (map user_view_of (rows (Users d)))"
    by (simp add: select_users_all_def)
next
  assume "tok_role u \<notin> {''Professeur'', ''Coordinateur''}"
  then have "tok_role u \<notin> set [''Professeur'', ''Coordinateur'']" by simp
  from route_gate2 [OF assms(1) this]
  show "get_users_all verify req d = (json 403 (Message ''Acces non autorise''), d)"
    by (simp add: get_users_all_def)
qed

theorem C1_users_all_amended_witness:
  "authenticated sample_verify (sample_request ''coord'' ()) awa \<and> reachable sample_db
   \<and> tok_role awa \<in> {''Professeur'', ''Coordinateur''}
   \<and> status (fst (get_users_all sample_verify (sample_request ''coord'' ()) sample_db)) = 200
   \<and> sorted (map uv_role (select_users_all sample_db))
   \<and> map uv_id (select_users_all sample_db) = [1, 7, 5, 3, 4, 2, 6]"
proof -
  have ids: "map uv_id (select_users_all sample_db) = [1, 7, 5, 3, 4, 2, 6]"
    by (simp add: select_users_all_def sample_db_def user_view_of_def less_eq_prod_def)
  have role: "tok_role awa \<in> {''Professeur'', ''Coordinateur''}"
    by (simp add: awa_def)
  note th = C1_users_all_amended [OF sample_authenticated(1) sample_reachable, of "()"]
  from th have "tok_role awa \<in> {''Professeur'', ''Coordinateur''} \<longrightarrow>
            get_users_all sample_verify (sample_request ''coord'' ()) sample_db =
              (json 200 (UserList (select_users_all sample_db)),
               sample_db\<lparr>accesses := accesses sample_db + 2\<rparr>)
            \<and> sorted (map uv_role (select_users_all sample_db))
            \<and> mset (select_users_all sample_db) = mset (map user_view_of (rows (Users sample_db)))"
    by (rule conjunct1)
  from this role have ok:
    "get_users_all sample_verify (sample_request ''coord'' ()) sample_db =
              (json 200 (UserList (select_users_all sample_db)),
               sample_db\<lparr>accesses := accesses sample_db + 2\<rparr>)
            \<and> sorted (map uv_role (select_users_all sample_db))
            \<and> mset (select_users_all sample_db) = mset (map user_view_of (rows (Users sample_db)))"
    by (rule mp)
  then have st: "status (fst (get_users_all sample_verify (sample_request ''coord'' ()) sample_db)) = 200"
    by (simp add: json_def)
  from ok have so: "sorted (map uv_role (select_users_all sample_db))" by (elim conjE)
  from sample_authenticated(1) sample_reachable role st so ids show ?thesis
    by (intro conjI)
qed

text \<open>
  The claim as stated fails for a Professeur: the teacher of the sample store is
  answered 200, not 403.
\<close>

theorem C1_teacher_counterexample:
  "status (fst (get_users_all sample_verify (sample_request ''prof'' ()) sample_db)) = 200"
  by (simp add: get_users_all_def sample_request_def auth_def authorizeRole_def with_user_def
      sample_verify_def moussa_def falsy_def text_of_def users_all_handler_def
      getConnection_def execute_def sample_db_def json_def)

subsection \<open>C2: the order of the checks\<close>

lemma announcement_missing_class:
  assumes "reachable d"
    and "\<not> falsy_num (ab_class_id b)" "\<not> falsy (ab_titre b)" "\<not> falsy (ab_contenu b)"
    and "\<not> class_exists d (num_of (ab_class_id b))"
  shows "announcement_handler u b d =
           (json 403 (Message ''Vous n etes pas autorise a publier une annonce dans cette classe.''),
            d\<lparr>accesses := accesses d + 2\<rparr>)"
  using assms
  by (simp add: announcement_handler_def Let_def store_defs missing_resource)

lemma documentation_missing_class:
  assumes "reachable d"
    and "\<not> falsy_num (db_class_id b)" "\<not> falsy (db_titre b)"
    and "\<not> class_exists d (num_of (db_class_id b))"
  shows "documentation_handler u b d =
           (json 403 (Message ''Vous n etes pas autorise a partager de la documentation dans cette classe.''),
            d\<lparr>accesses := accesses d + 2\<rparr>)"
  using assms
  by (simp add: documentation_handler_def Let_def store_defs missing_resource)

lemma task_missing_class:
  assumes "reachable d"
    and "\<not> falsy_num (tb_class_id b)" "\<not> falsy (tb_titre b)" "\<not> falsy (tb_date_limite b)"
    and "\<not> class_exists d (num_of (tb_class_id b))"
  shows "task_handler u b d =
           (json 403 (Message ''Vous n etes pas autorise a assigner une tache dans cette classe.''),
            d\<lparr>accesses := accesses d + 2\<rparr>)"
  using assms
  by (simp add: task_handler_def Let_def store_defs missing_resource)

lemma task_submissions_missing_task:
  assumes "reachable d" and "\<not> task_exists d k"
  shows "task_submissions_handler u k d =
           (json 403 (Message ''Vous n etes pas autorise a voir les soumissions de cette tache.''),
            d\<lparr>accesses := accesses d + 2\<rparr>)"
  using assms
  by (simp add: task_submissions_handler_def Let_def store_defs missing_resource)

lemma grade_missing_submission:
  assumes "reachable d"
    and "gb_grade b = Some g" "gb_feedback b = Some f"
    and "\<not> submission_exists d (gb_submissionId b)"
  shows "grade_handler u b d =
           (json 403 (Message ''Vous n etes pas autorise a noter cette soumission.''),
            d\<lparr>accesses := accesses d + 2\<rparr>)"
  using assms
  by (simp add: grade_handler_def Let_def store_defs missing_resource)

lemma project_missing_class:
  assumes "reachable d" and "tok_role u = ''Professeur''"
    and "\<not> class_exists d (pb_class_id b)"
  shows "project_handler u b d =
           (json 403 (Message ''Vous n avez pas la permission de creer un projet pour cette classe.''),
            d\<lparr>accesses := accesses d + 2\<rparr>)"
  using assms
  by (simp add: project_handler_def Let_def store_defs missing_resource)

lemma submit_missing_task:
  assumes "reachable d"
    and "\<not> (falsy (sb_file_path b) \<and> falsy (sb_content b))"
    and "\<not> task_exists d (sb_taskId b)"
  shows "submit_handler u b d =
           (json 404 (Message ''Tache non trouvee.''), d\<lparr>accesses := accesses d + 2\<rparr>)"
proof -
  from assms(2) have v: "(falsy (sb_file_path b) \<and> falsy (sb_content b)) = False" by simp
  show ?thesis using assms(1,3)
    by (simp add: submit_handler_def Let_def store_defs missing_resource v)
qed

lemma submit_not_enrolled:
  assumes "reachable d"
    and "\<not> (falsy (sb_file_path b) \<and> falsy (sb_content b))"
    and "select_task_class (sb_taskId b) d = cid # rest"
    and "select_enrollment (tok_id u) cid d = []"
  shows "submit_handler u b d =
           (json 403 (Message
               ''Vous n etes pas autorise a soumettre a cette tache (non inscrit a la classe).''),
            d\<lparr>accesses := accesses d + 3\<rparr>)"
proof -
  from assms(2) have v: "(falsy (sb_file_path b) \<and> falsy (sb_content b)) = False" by simp
  show ?thesis using assms(1,3,4)
    by (simp add: submit_handler_def Let_def store_defs v)
qed

lemma group_project_missing:
  assumes "reachable d" and "select_project_info (gr_projet_id b) d = []"
  shows "group_handler u b d =
           (json 404 (Message ''Projet non trouve.''), d\<lparr>accesses := accesses d + 2\<rparr>)"
  using assms
  by (simp add: group_handler_def Let_def store_defs)

lemma group_not_owner:
  assumes "reachable d" and "tok_role u = ''Professeur''"
    and "select_project_info (gr_projet_id b) d = (cid, prof) # rest"
    and "prof \<noteq> tok_id u"
  shows "group_handler u b d =
           (json 403 (Message ''Vous n avez pas la permission de creer un groupe pour ce projet.''),
            d\<lparr>accesses := accesses d + 2\<rparr>)"
  using assms
  by (simp add: group_handler_def Let_def store_defs)

lemma member_add_group_missing:
  assumes "reachable d" and "select_group_info (ma_groupId b) d = []"
  shows "member_add_handler u b d =
           (json 404 (Message ''Groupe non trouve.''), d\<lparr>accesses := accesses d + 2\<rparr>)"
  using assms
  by (simp add: member_add_handler_def Let_def store_defs)

lemma member_add_not_owner:
  assumes "reachable d" and "tok_role u = ''Professeur''"
    and "select_group_info (ma_groupId b) d = (pj, cid, prof) # rest"
    and "prof \<noteq> tok_id u"
  shows "member_add_handler u b d =
           (json 403 (Message ''Vous n avez pas la permission de modifier ce groupe.''),
            d\<lparr>accesses := accesses d + 2\<rparr>)"
  using assms
  by (simp add: member_add_handler_def Let_def store_defs)

lemma member_delete_group_missing:
  assumes "reachable d" and "select_group_info (md_groupId b) d = []"
  shows "member_delete_handler u b d =
           (json 404 (Message ''Groupe non trouve.''), d\<lparr>accesses := accesses d + 2\<rparr>)"
  using assms
  by (simp add: member_delete_handler_def Let_def store_defs)

lemma member_delete_not_owner:
  assumes "reachable d" and "tok_role u = ''Professeur''"
    and "select_group_info (md_groupId b) d = (pj, cid, prof) # rest"
    and "prof \<noteq> tok_id u"
  shows "member_delete_handler u b d =
           (json 403 (Message ''Vous n avez pas la permission de modifier ce groupe.''),
            d\<lparr>accesses := accesses d + 2\<rparr>)"
  using assms
  by (simp add: member_delete_handler_def Let_def store_defs)

text \<open>
  Claim C2, as the code has it. On each of the ten routes that have a role gate and
  a test of the caller's relation to a resource, the role gate comes first: a caller
  whose role is not in the allow-list is answered 403 without store access. After
  the gate,
  \<^item> task submission, group creation and group-member addition and removal look the
    resource up on its own: when it is not in the store the answer is 404, and when
    it is there and the caller is not related to it (a student not enrolled in the
    class of the task, a teacher who does not own the class of the project) the
    answer is 403;
  \<^item> announcement, documentation and task creation, the listing of a task's
    submissions and grading look up "the resource, owned by the caller" in one
    statement: a teacher who names a resource that is not in the store is answered
    403, and so is a teacher who creates a project for a class that is not in the
    store.
\<close>

theorem C2_order_of_checks_amended:
  assumes "reachable d"
  shows "(authenticated verify qa u
          \<and> tok_role u \<noteq> ''Professeur''
          \<longrightarrow> post_announcements verify qa d =
                (json 403 (Message ''Acces non autorise''),
                 d))
       \<and> (authenticated verify qd u
          \<and> tok_role u \<noteq> ''Professeur''
          \<longrightarrow> post_documentations verify qd d =
                (json 403 (Message ''Acces non autorise''),
                 d))
       \<and> (authenticated verify qt u
          \<and> tok_role u \<noteq> ''Professeur''
          \<longrightarrow> post_tasks verify qt d =
                (json 403 (Message ''Acces non autorise''),
                 d))
       \<and> (authenticated verify qs u
          \<and> tok_role u \<noteq> ''Etudiant''
          \<longrightarrow> post_tasks_submit verify qs d =
                (json 403 (Message ''Acces non autorise''),
                 d))
       \<and> (authenticated verify ql u
          \<and> tok_role u \<noteq> ''Professeur''
          \<longrightarrow> get_task_submissions verify ql d =
                (json 403 (Message ''Acces non autorise''),
                 d))
       \<and> (authenticated verify qg u
          \<and> tok_role u \<noteq> ''Professeur''
          \<longrightarrow> put_submission_grade verify qg d =
                (json 403 (Message ''Acces non autorise''),
                 d))
       \<and> (authenticated verify qp u
          \<and> tok_role u \<notin> {''Professeur'', ''Coordinateur''}
          \<longrightarrow> post_projects verify qp d =
                (json 403 (Message ''Acces non autorise''),
                 d))
       \<and> (authenticated verify qr u
          \<and> tok_role u \<notin> {''Professeur'', ''Coordinateur''}
          \<longrightarrow> post_groups verify qr d =
                (json 403 (Message ''Acces non autorise''),
                 d))
       \<and> (authenticated verify qm u
          \<and> tok_role u \<notin> {''Professeur'', ''Coordinateur''}
          \<longrightarrow> post_group_members verify qm d =
                (json 403 (Message ''Acces non autorise''),
                 d))
       \<and> (authenticated verify qx u
          \<and> tok_role u \<notin> {''Professeur'', ''Coordinateur''}
          \<longrightarrow> delete_group_members verify qx d =
                (json 403 (Message ''Acces non autorise''),
                 d))
       \<and> (authenticated verify qs u
          \<and> tok_role u = ''Etudiant''
          \<and> \<not> (falsy (sb_file_path (payload qs)) \<and> falsy (sb_content (payload qs)))
          \<and> \<not> task_exists d (sb_taskId (payload qs))
          \<longrightarrow> post_tasks_submit verify qs d =
                (json 404 (Message ''Tache non trouvee.''),
                 d\<lparr>accesses := accesses d + 2\<rparr>))
       \<and> (authenticated verify qs u
          \<and> tok_role u = ''Etudiant''
          \<and> \<not> (falsy (sb_file_path (payload qs)) \<and> falsy (sb_content (payload qs)))
          \<and> select_task_class (sb_taskId (payload qs)) d = sc # srest
          \<and> select_enrollment (tok_id u) sc d = []
          \<longrightarrow> post_tasks_submit verify qs d =
                (json 403 (Message
                    ''Vous n etes pas autorise a soumettre a cette tache (non inscrit a la classe).''),
                 d\<lparr>accesses := accesses d + 3\<rparr>))
       \<and> (authenticated verify qr u
          \<and> tok_role u \<in> {''Professeur'', ''Coordinateur''}
          \<and> \<not> project_exists d (gr_projet_id (payload qr))
          \<longrightarrow> post_groups verify qr d =
                (json 404 (Message ''Projet non trouve.''),
                 d\<lparr>accesses := accesses d + 2\<rparr>))
       \<and> (authenticated verify qr u
          \<and> tok_role u = ''Professeur''
          \<and> select_project_info (gr_projet_id (payload qr)) d = (rc, rp) # rrest
          \<and> rp \<noteq> tok_id u
          \<longrightarrow> post_groups verify qr d =
                (json 403 (Message ''Vous n avez pas la permission de creer un groupe pour ce projet.''),
                 d\<lparr>accesses := accesses d + 2\<rparr>))
       \<and> (authenticated verify qm u
          \<and> tok_role u \<in> {''Professeur'', ''Coordinateur''}
          \<and> \<not> group_exists d (ma_groupId (payload qm))
          \<longrightarrow> post_group_members verify qm d =
                (json 404 (Message ''Groupe non trouve.''),
                 d\<lparr>accesses := accesses d + 2\<rparr>))
       \<and> (authenticated verify qm u
          \<and> tok_role u = ''Professeur''
          \<and> select_group_info (ma_groupId (payload qm)) d = (mj, mc, mp) # mrest
          \<and> mp \<noteq> tok_id u
          \<longrightarrow> post_group_members verify qm d =
                (json 403 (Message ''Vous n avez pas la permission de modifier ce groupe.''),
                 d\<lparr>accesses := accesses d + 2\<rparr>))
       \<and> (authenticated verify qx u
          \<and> tok_role u \<in> {''Professeur'', ''Coordinateur''}
          \<and> \<not> group_exists d (md_groupId (payload qx))
          \<longrightarrow> delete_group_members verify qx d =
                (json 404 (Message ''Groupe non trouve.''),
                 d\<lparr>accesses := accesses d + 2\<rparr>))
       \<and> (authenticated verify qx u
          \<and> tok_role u = ''Professeur''
          \<and> select_group_info (md_groupId (payload qx)) d = (xj, xc, xp) # xrest
          \<and> xp \<noteq> tok_id u
          \<longrightarrow> delete_group_members verify qx d =
                (json 403 (Message ''Vous n avez pas la permission de modifier ce groupe.''),
                 d\<lparr>accesses := accesses d + 2\<rparr>))
       \<and> (authenticated verify qa u
          \<and> tok_role u = ''Professeur''
          \<and> \<not> falsy_num (ab_class_id (payload qa))
          \<and> \<not> falsy (ab_titre (payload qa))
          \<and> \<not> falsy (ab_contenu (payload qa))
          \<and> \<not> class_exists d (num_of (ab_class_id (payload qa)))
          \<longrightarrow> post_announcements verify qa d =
                (json 403 (Message ''Vous n etes pas autorise a publier une annonce dans cette classe.''),
                 d\<lparr>accesses := accesses d + 2\<rparr>))
       \<and> (authenticated verify qd u
          \<and> tok_role u = ''Professeur''
          \<and> \<not> falsy_num (db_class_id (payload qd))
          \<and> \<not> falsy (db_titre (payload qd))
          \<and> \<not> class_exists d (num_of (db_class_id (payload qd)))
          \<longrightarrow> post_documentations verify qd d =
                (json 403 (Message
                    ''Vous n etes pas autorise a partager de la documentation dans cette classe.''),
                 d\<lparr>accesses := accesses d + 2\<rparr>))
       \<and> (authenticated verify qt u
          \<and> tok_role u = ''Professeur''
          \<and> \<not> falsy_num (tb_class_id (payload qt))
          \<and> \<not> falsy (tb_titre (payload qt))
          \<and> \<not> falsy (tb_date_limite (payload qt))
          \<and> \<not> class_exists d (num_of (tb_class_id (payload qt)))
          \<longrightarrow> post_tasks verify qt d =
                (json 403 (Message ''Vous n etes pas autorise a assigner une tache dans cette classe.''),
                 d\<lparr>accesses := accesses d + 2\<rparr>))
       \<and> (authenticated verify ql u
          \<and> tok_role u = ''Professeur''
          \<and> \<not> task_exists d (payload ql)
          \<longrightarrow> get_task_submissions verify ql d =
                (json 403 (Message ''Vous n etes pas autorise a voir les soumissions de cette tache.''),
                 d\<lparr>accesses := accesses d + 2\<rparr>))
       \<and> (authenticated verify qg u
          \<and> tok_role u = ''Professeur''
          \<and> gb_grade (payload qg) = Some gg
          \<and> gb_feedback (payload qg) = Some gf
          \<and> \<not> submission_exists d (gb_submissionId (payload qg))
          \<longrightarrow> put_submission_grade verify qg d =
                (json 403 (Message ''Vous n etes pas autorise a noter cette soumission.''),
                 d\<lparr>accesses := accesses d + 2\<rparr>))
       \<and> (authenticated verify qp u
          \<and> tok_role u = ''Professeur''
          \<and> \<not> class_exists d (pb_class_id (payload qp))
          \<longrightarrow> post_projects verify qp d =
                (json 403 (Message ''Vous n avez pas la permission de creer un projet pour cette classe.''),
                 d\<lparr>accesses := accesses d + 2\<rparr>))"
proof (intro conjI impI; elim conjE)
  assume a: "authenticated verify qa u"
    and r: "tok_role u \<noteq> ''Professeur''"
  show "post_announcements verify qa d =
            (json 403 (Message ''Acces non autorise''),
             d)"
    unfolding post_announcements_def by (rule gate_teacher [OF a r])
next
  assume a: "authenticated verify qd u"
    and r: "tok_role u \<noteq> ''Professeur''"
  show "post_documentations verify qd d =
            (json 403 (Message ''Acces non autorise''),
             d)"
    unfolding post_documentations_def by (rule gate_teacher [OF a r])
next
  assume a: "authenticated verify qt u"
    and r: "tok_role u \<noteq> ''Professeur''"
  show "post_tasks verify qt d =
            (json 403 (Message ''Acces non autorise''),
             d)"
    unfolding post_tasks_def by (rule gate_teacher [OF a r])
next
  assume a: "authenticated verify qs u"
    and r: "tok_role u \<noteq> ''Etudiant''"
  show "post_tasks_submit verify qs d =
            (json 403 (Message ''Acces non autorise''),
             d)"
    unfolding post_tasks_submit_def by (rule gate_student [OF a r])
next
  assume a: "authenticated verify ql u"
    and r: "tok_role u \<noteq> ''Professeur''"
  show "get_task_submissions verify ql d =
            (json 403 (Message ''Acces non autorise''),
             d)"
    unfolding get_task_submissions_def by (rule gate_teacher [OF a r])
next
  assume a: "authenticated verify qg u"
    and r: "tok_role u \<noteq> ''Professeur''"
  show "put_submission_grade verify qg d =
            (json 403 (Message ''Acces non autorise''),
             d)"
    unfolding put_submission_grade_def by (rule gate_teacher [OF a r])
next
  assume a: "authenticated verify qp u"
    and r: "tok_role u \<notin> {''Professeur'', ''Coordinateur''}"
  show "post_projects verify qp d =
            (json 403 (Message ''Acces non autorise''),
             d)"
    unfolding post_projects_def by (rule gate_staff [OF a r])
next
  assume a: "authenticated verify qr u"
    and r: "tok_role u \<notin> {''Professeur'', ''Coordinateur''}"
  show "post_groups verify qr d =
            (json 403 (Message ''Acces non autorise''),
             d)"
    unfolding post_groups_def by (rule gate_staff [OF a r])
next
  assume a: "authenticated verify qm u"
    and r: "tok_role u \<notin> {''Professeur'', ''Coordinateur''}"
  show "post_group_members verify qm d =
            (json 403 (Message ''Acces non autorise''),
             d)"
    unfolding post_group_members_def by (rule gate_staff [OF a r])
next
  assume a: "authenticated verify qx u"
    and r: "tok_role u \<notin> {''Professeur'', ''Coordinateur''}"
  show "delete_group_members verify qx d =
            (json 403 (Message ''Acces non autorise''),
             d)"
    unfolding delete_group_members_def by (rule gate_staff [OF a r])
next
  assume a: "authenticated verify qs u"
    and r: "tok_role u = ''Etudiant''"
    and v: "\<not> (falsy (sb_file_path (payload qs)) \<and> falsy (sb_content (payload qs)))"
    and e: "\<not> task_exists d (sb_taskId (payload qs))"
  show "post_tasks_submit verify qs d =
            (json 404 (Message ''Tache non trouvee.''),
             d\<lparr>accesses := accesses d + 2\<rparr>)"
    unfolding submit_route [OF a r] by (rule submit_missing_task [OF assms v e])
next
  assume a: "authenticated verify qs u"
    and r: "tok_role u = ''Etudiant''"
    and v: "\<not> (falsy (sb_file_path (payload qs)) \<and> falsy (sb_content (payload qs)))"
    and e: "select_task_class (sb_taskId (payload qs)) d = sc # srest"
    and m: "select_enrollment (tok_id u) sc d = []"
  show "post_tasks_submit verify qs d =
            (json 403 (Message
                ''Vous n etes pas autorise a soumettre a cette tache (non inscrit a la classe).''),
             d\<lparr>accesses := accesses d + 3\<rparr>)"
    unfolding submit_route [OF a r] by (rule submit_not_enrolled [OF assms v e m])
next
  assume a: "authenticated verify qr u"
    and r: "tok_role u \<in> {''Professeur'', ''Coordinateur''}"
    and e: "\<not> project_exists d (gr_projet_id (payload qr))"
  show "post_groups verify qr d =
            (json 404 (Message ''Projet non trouve.''),
             d\<lparr>accesses := accesses d + 2\<rparr>)"
    unfolding post_groups_def staff_route [OF a r] by (rule group_project_missing [OF assms
        missing_resource(6) [OF e]])
next
  assume a: "authenticated verify qr u"
    and r: "tok_role u = ''Professeur''"
    and e: "select_project_info (gr_projet_id (payload qr)) d = (rc, rp) # rrest"
    and m: "rp \<noteq> tok_id u"
  show "post_groups verify qr d =
            (json 403 (Message ''Vous n avez pas la permission de creer un groupe pour ce projet.''),
             d\<lparr>accesses := accesses d + 2\<rparr>)"
    unfolding post_groups_def teacher_route(2) [OF a r] by (rule group_not_owner [OF assms r e m])
next
  assume a: "authenticated verify qm u"
    and r: "tok_role u \<in> {''Professeur'', ''Coordinateur''}"
    and e: "\<not> group_exists d (ma_groupId (payload qm))"
  show "post_group_members verify qm d =
            (json 404 (Message ''Groupe non trouve.''),
             d\<lparr>accesses := accesses d + 2\<rparr>)"
    unfolding post_group_members_def staff_route [OF a r] by (rule member_add_group_missing [OF
        assms missing_resource(7) [OF e]])
next
  assume a: "authenticated verify qm u"
    and r: "tok_role u = ''Professeur''"
    and e: "select_group_info (ma_groupId (payload qm)) d = (mj, mc, mp) # mrest"
    and m: "mp \<noteq> tok_id u"
  show "post_group_members verify qm d =
            (json 403 (Message ''Vous n avez pas la permission de modifier ce groupe.''),
             d\<lparr>accesses := accesses d + 2\<rparr>)"
    unfolding post_group_members_def teacher_route(2) [OF a r] by (rule member_add_not_owner [OF assms r e m])
next
  assume a: "authenticated verify qx u"
    and r: "tok_role u \<in> {''Professeur'', ''Coordinateur''}"
    and e: "\<not> group_exists d (md_groupId (payload qx))"
  show "delete_group_members verify qx d =
            (json 404 (Message ''Groupe non trouve.''),
             d\<lparr>accesses := accesses d + 2\<rparr>)"
    unfolding delete_group_members_def staff_route [OF a r] by (rule member_delete_group_missing [OF
        assms missing_resource(7) [OF e]])
next
  assume a: "authenticated verify qx u"
    and r: "tok_role u = ''Professeur''"
    and e: "select_group_info (md_groupId (payload qx)) d = (xj, xc, xp) # xrest"
    and m: "xp \<noteq> tok_id u"
  show "delete_group_members verify qx d =
            (json 403 (Message ''Vous n avez pas la permission de modifier ce groupe.''),
             d\<lparr>accesses := accesses d + 2\<rparr>)"
    unfolding delete_group_members_def teacher_route(2) [OF a r] by (rule member_delete_not_owner
        [OF assms r e m])
next
  assume a: "authenticated verify qa u"
    and r: "tok_role u = ''Professeur''"
    and v0: "\<not> falsy_num (ab_class_id (payload qa))"
    and v1: "\<not> falsy (ab_titre (payload qa))"
    and v2: "\<not> falsy (ab_contenu (payload qa))"
    and e: "\<not> class_exists d (num_of (ab_class_id (payload qa)))"
  show "post_announcements verify qa d =
            (json 403 (Message ''Vous n etes pas autorise a publier une annonce dans cette classe.''),
             d\<lparr>accesses := accesses d + 2\<rparr>)"
    unfolding post_announcements_def teacher_route(1) [OF a r] by (rule announcement_missing_class
        [OF assms v0 v1 v2 e])
next
  assume a: "authenticated verify qd u"
    and r: "tok_role u = ''Professeur''"
    and v0: "\<not> falsy_num (db_class_id (payload qd))"
    and v1: "\<not> falsy (db_titre (payload qd))"
    and e: "\<not> class_exists d (num_of (db_class_id (payload qd)))"
  show "post_documentations verify qd d =
            (json 403 (Message
                ''Vous n etes pas autorise a partager de la documentation dans cette classe.''),
             d\<lparr>accesses := accesses d + 2\<rparr>)"
    unfolding post_documentations_def teacher_route(1) [OF a r] by (rule documentation_missing_class
        [OF assms v0 v1 e])
next
  assume a: "authenticated verify qt u"
    and r: "tok_role u = ''Professeur''"
    and v0: "\<not> falsy_num (tb_class_id (payload qt))"
    and v1: "\<not> falsy (tb_titre (payload qt))"
    and v2: "\<not> falsy (tb_date_limite (payload qt))"
    and e: "\<not> class_exists d (num_of (tb_class_id (payload qt)))"
  show "post_tasks verify qt d =
            (json 403 (Message ''Vous n etes pas autorise a assigner une tache dans cette classe.''),
             d\<lparr>accesses := accesses d + 2\<rparr>)"
    unfolding post_tasks_def teacher_route(1) [OF a r] by (rule task_missing_class [OF assms v0 v1 v2 e])
next
  assume a: "authenticated verify ql u"
    and r: "tok_role u = ''Professeur''"
    and e: "\<not> task_exists d (payload ql)"
  show "get_task_submissions verify ql d =
            (json 403 (Message ''Vous n etes pas autorise a voir les soumissions de cette tache.''),
             d\<lparr>accesses := accesses d + 2\<rparr>)"
    unfolding get_task_submissions_def teacher_route(1) [OF a r] by (rule
        task_submissions_missing_task [OF assms  e])
next
  assume a: "authenticated verify qg u"
    and r: "tok_role u = ''Professeur''"
    and v0: "gb_grade (payload qg) = Some gg"
    and v1: "gb_feedback (payload qg) = Some gf"
    and e: "\<not> submission_exists d (gb_submissionId (payload qg))"
  show "put_submission_grade verify qg d =
            (json 403 (Message ''Vous n etes pas autorise a noter cette soumission.''),
             d\<lparr>accesses := accesses d + 2\<rparr>)"
    unfolding put_submission_grade_def teacher_route(1) [OF a r] by (rule grade_missing_submission
        [OF assms v0 v1 e])
next
  assume a: "authenticated verify qp u"
    and r: "tok_role u = ''Professeur''"
    and e: "\<not> class_exists d (pb_class_id (payload qp))"
  show "post_projects verify qp d =
            (json 403 (Message ''Vous n avez pas la permission de creer un projet pour cette classe.''),
             d\<lparr>accesses := accesses d + 2\<rparr>)"
    unfolding post_projects_def teacher_route(2) [OF a r] by (rule project_missing_class [OF assms r  e])
qed

theorem C2_order_of_checks_amended_witness:
  "reachable sample_db
   \<and> \<not> class_exists sample_db 99
   \<and> \<not> task_exists sample_db 99
   \<and> \<not> submission_exists sample_db 99
   \<and> \<not> project_exists sample_db 99
   \<and> \<not> group_exists sample_db 99
   \<and> select_task_class 20 sample_db = [10]
   \<and> select_enrollment (tok_id aly) 10 sample_db = []
   \<and> select_project_info 30 sample_db = [(10, 2)]
   \<and> select_group_info 40 sample_db = [(30, 10, 2)]
   \<and> status (fst (post_announcements sample_verify
        (sample_request ''etud'' annonce_99) sample_db)) = 403
   \<and> status (fst (post_documentations sample_verify
        (sample_request ''etud'' cours_99) sample_db)) = 403
   \<and> status (fst (post_tasks sample_verify
        (sample_request ''etud'' devoir_99) sample_db)) = 403
   \<and> status (fst (post_tasks_submit sample_verify
        (sample_request ''prof'' copie_20) sample_db)) = 403
   \<and> status (fst (get_task_submissions sample_verify
        (sample_request ''etud'' (20::int)) sample_db)) = 403
   \<and> status (fst (put_submission_grade sample_verify
        (sample_request ''etud'' note_99) sample_db)) = 403
   \<and> status (fst (post_projects sample_verify
        (sample_request ''etud'' projet_99) sample_db)) = 403
   \<and> status (fst (post_groups sample_verify
        (sample_request ''etud'' groupe_30) sample_db)) = 403
   \<and> status (fst (post_group_members sample_verify
        (sample_request ''etud'' ajout_40) sample_db)) = 403
   \<and> status (fst (delete_group_members sample_verify
        (sample_request ''etud'' retrait_40) sample_db)) = 403
   \<and> status (fst (post_tasks_submit sample_verify
        (sample_request ''etud'' copie_99) sample_db)) = 404
   \<and> status (fst (post_tasks_submit sample_verify
        (sample_request ''etud2'' copie_20) sample_db)) = 403
   \<and> status (fst (post_groups sample_verify
        (sample_request ''prof'' groupe_99) sample_db)) = 404
   \<and> status (fst (post_groups sample_verify
        (sample_request ''prof2'' groupe_30) sample_db)) = 403
   \<and> status (fst (post_group_members sample_verify
        (sample_request ''prof'' ajout_99) sample_db)) = 404
   \<and> status (fst (post_group_members sample_verify
        (sample_request ''prof2'' ajout_40) sample_db)) = 403
   \<and> status (fst (delete_group_members sample_verify
        (sample_request ''prof'' retrait_99) sample_db)) = 404
   \<and> status (fst (delete_group_members sample_verify
        (sample_request ''prof2'' retrait_40) sample_db)) = 403
   \<and> status (fst (post_announcements sample_verify
        (sample_request ''prof'' annonce_99) sample_db)) = 403
   \<and> status (fst (post_documentations sample_verify
        (sample_request ''prof'' cours_99) sample_db)) = 403
   \<and> status (fst (post_tasks sample_verify
        (sample_request ''prof'' devoir_99) sample_db)) = 403
   \<and> status (fst (get_task_submissions sample_verify
        (sample_request ''prof'' (99::int)) sample_db)) = 403
   \<and> status (fst (put_submission_grade sample_verify
        (sample_request ''prof'' note_99) sample_db)) = 403
   \<and> status (fst (post_projects sample_verify
        (sample_request ''prof'' projet_99) sample_db)) = 403"
proof -
  note th = C2_order_of_checks_amended [OF sample_reachable]
  note c0 = th
  note c1 = c0 [THEN conjunct2]
  note c2 = c1 [THEN conjunct2]
  note c3 = c2 [THEN conjunct2]
  note c4 = c3 [THEN conjunct2]
  note c5 = c4 [THEN conjunct2]
  note c6 = c5 [THEN conjunct2]
  note c7 = c6 [THEN conjunct2]
  note c8 = c7 [THEN conjunct2]
  note c9 = c8 [THEN conjunct2]
  note c10 = c9 [THEN conjunct2]
  note c11 = c10 [THEN conjunct2]
  note c12 = c11 [THEN conjunct2]
  note c13 = c12 [THEN conjunct2]
  note c14 = c13 [THEN conjunct2]
  note c15 = c14 [THEN conjunct2]
  note c16 = c15 [THEN conjunct2]
  note c17 = c16 [THEN conjunct2]
  note c18 = c17 [THEN conjunct2]
  note c19 = c18 [THEN conjunct2]
  note c20 = c19 [THEN conjunct2]
  note c21 = c20 [THEN conjunct2]
  note c22 = c21 [THEN conjunct2]
  note c23 = c22 [THEN conjunct2]
  have ex: "\<not> class_exists sample_db 99" "\<not> task_exists sample_db 99"
    "\<not> submission_exists sample_db 99" "\<not> project_exists sample_db 99"
    "\<not> group_exists sample_db 99"
    by (simp_all add: class_exists_def task_exists_def submission_exists_def
        project_exists_def group_exists_def sample_db_def)
  have tc: "select_task_class 20 sample_db = 10 # []"
    by (simp add: select_task_class_def sample_db_def)
  have ne: "select_enrollment (tok_id aly) 10 sample_db = []"
    by (simp add: select_enrollment_def sample_db_def)
  have pi: "select_project_info 30 sample_db = (10, 2) # []"
    by (simp add: select_project_info_def sample_db_def)
  have gi: "select_group_info 40 sample_db = (30, 10, 2) # []"
    by (simp add: select_group_info_def sample_db_def)
  have h0: "authenticated sample_verify (sample_request ''etud'' annonce_99) fatou
      \<and> tok_role fatou \<noteq> ''Professeur''"
    using sample_authenticated(3) ex tc ne pi gi by (simp add: sample_bodies)
  have s0: "status (fst (post_announcements sample_verify
        (sample_request ''etud'' annonce_99) sample_db)) = 403"
    using c0 [THEN conjunct1, THEN mp, OF h0]
    by (simp add: json_def)
  have h1: "authenticated sample_verify (sample_request ''etud'' cours_99) fatou
      \<and> tok_role fatou \<noteq> ''Professeur''"
    using sample_authenticated(3) ex tc ne pi gi by (simp add: sample_bodies)
  have s1: "status (fst (post_documentations sample_verify
        (sample_request ''etud'' cours_99) sample_db)) = 403"
    using c1 [THEN conjunct1, THEN mp, OF h1]
    by (simp add: json_def)
  have h2: "authenticated sample_verify (sample_request ''etud'' devoir_99) fatou
      \<and> tok_role fatou \<noteq> ''Professeur''"
    using sample_authenticated(3) ex tc ne pi gi by (simp add: sample_bodies)
  have s2: "status (fst (post_tasks sample_verify
        (sample_request ''etud'' devoir_99) sample_db)) = 403"
    using c2 [THEN conjunct1, THEN mp, OF h2]
    by (simp add: json_def)
  have h3: "authenticated sample_verify (sample_request ''prof'' copie_20) moussa
      \<and> tok_role moussa \<noteq> ''Etudiant''"
    using sample_authenticated(2) ex tc ne pi gi by (simp add: sample_bodies)
  have s3: "status (fst (post_tasks_submit sample_verify
        (sample_request ''prof'' copie_20) sample_db)) = 403"
    using c3 [THEN conjunct1, THEN mp, OF h3]
    by (simp add: json_def)
  have h4: "authenticated sample_verify (sample_request ''etud'' (20::int)) fatou
      \<and> tok_role fatou \<noteq> ''Professeur''"
    using sample_authenticated(3) ex tc ne pi gi by (simp add: sample_bodies)
  have s4: "status (fst (get_task_submissions sample_verify
        (sample_request ''etud'' (20::int)) sample_db)) = 403"
    using c4 [THEN conjunct1, THEN mp, OF h4]
    by (simp add: json_def)
  have h5: "authenticated sample_verify (sample_request ''etud'' note_99) fatou
      \<and> tok_role fatou \<noteq> ''Professeur''"
    using sample_authenticated(3) ex tc ne pi gi by (simp add: sample_bodies)
  have s5: "status (fst (put_submission_grade sample_verify
        (sample_request ''etud'' note_99) sample_db)) = 403"
    using c5 [THEN conjunct1, THEN mp, OF h5]
    by (simp add: json_def)
  have h6: "authenticated sample_verify (sample_request ''etud'' projet_99) fatou
      \<and> tok_role fatou \<notin> {''Professeur'', ''Coordinateur''}"
    using sample_authenticated(3) ex tc ne pi gi by (simp add: sample_bodies)
  have s6: "status (fst (post_projects sample_verify
        (sample_request ''etud'' projet_99) sample_db)) = 403"
    using c6 [THEN conjunct1, THEN mp, OF h6]
    by (simp add: json_def)
  have h7: "authenticated sample_verify (sample_request ''etud'' groupe_30) fatou
      \<and> tok_role fatou \<notin> {''Professeur'', ''Coordinateur''}"
    using sample_authenticated(3) ex tc ne pi gi by (simp add: sample_bodies)
  have s7: "status (fst (post_groups sample_verify
        (sample_request ''etud'' groupe_30) sample_db)) = 403"
    using c7 [THEN conjunct1, THEN mp, OF h7]
    by (simp add: json_def)
  have h8: "authenticated sample_verify (sample_request ''etud'' ajout_40) fatou
      \<and> tok_role fatou \<notin> {''Professeur'', ''Coordinateur''}"
    using sample_authenticated(3) ex tc ne pi gi by (simp add: sample_bodies)
  have s8: "status (fst (post_group_members sample_verify
        (sample_request ''etud'' ajout_40) sample_db)) = 403"
    using c8 [THEN conjunct1, THEN mp, OF h8]
    by (simp add: json_def)
  have h9: "authenticated sample_verify (sample_request ''etud'' retrait_40) fatou
      \<and> tok_role fatou \<notin> {''Professeur'', ''Coordinateur''}"
    using sample_authenticated(3) ex tc ne pi gi by (simp add: sample_bodies)
  have s9: "status (fst (delete_group_members sample_verify
        (sample_request ''etud'' retrait_40) sample_db)) = 403"
    using c9 [THEN conjunct1, THEN mp, OF h9]
    by (simp add: json_def)
  have h10: "authenticated sample_verify (sample_request ''etud'' copie_99) fatou
      \<and> tok_role fatou = ''Etudiant''
      \<and> \<not> (falsy (sb_file_path (payload (sample_request ''etud'' copie_99))) \<and> falsy (sb_content (payload (sample_request ''etud'' copie_99))))
      \<and> \<not> task_exists sample_db (sb_taskId (payload (sample_request ''etud'' copie_99)))"
    using sample_authenticated(3) ex tc ne pi gi by (simp add: sample_bodies)
  have s10: "status (fst (post_tasks_submit sample_verify
        (sample_request ''etud'' copie_99) sample_db)) = 404"
    using c10 [THEN conjunct1, THEN mp, OF h10]
    by (simp add: json_def)
  have h11: "authenticated sample_verify (sample_request ''etud2'' copie_20) aly
      \<and> tok_role aly = ''Etudiant''
      \<and> \<not> (falsy (sb_file_path (payload (sample_request ''etud2'' copie_20))) \<and> falsy (sb_content (payload (sample_request ''etud2'' copie_20))))
      \<and> select_task_class (sb_taskId (payload (sample_request ''etud2'' copie_20))) sample_db = 10 # []
      \<and> select_enrollment (tok_id aly) 10 sample_db = []"
    using sample_authenticated(6) ex tc ne pi gi by (simp add: sample_bodies)
  have s11: "status (fst (post_tasks_submit sample_verify
        (sample_request ''etud2'' copie_20) sample_db)) = 403"
    using c11 [THEN conjunct1, THEN mp, OF h11]
    by (simp add: json_def)
  have h12: "authenticated sample_verify (sample_request ''prof'' groupe_99) moussa
      \<and> tok_role moussa \<in> {''Professeur'', ''Coordinateur''}
      \<and> \<not> project_exists sample_db (gr_projet_id (payload (sample_request ''prof'' groupe_99)))"
    using sample_authenticated(2) ex tc ne pi gi by (simp add: sample_bodies)
  have s12: "status (fst (post_groups sample_verify
        (sample_request ''prof'' groupe_99) sample_db)) = 404"
    using c12 [THEN conjunct1, THEN mp, OF h12]
    by (simp add: json_def)
  have h13: "authenticated sample_verify (sample_request ''prof2'' groupe_30) ibou
      \<and> tok_role ibou = ''Professeur''
      \<and> select_project_info (gr_projet_id (payload (sample_request ''prof2'' groupe_30))) sample_db = (10, 2) # []
      \<and> 2 \<noteq> tok_id ibou"
    using sample_authenticated(5) ex tc ne pi gi by (simp add: sample_bodies)
  have s13: "status (fst (post_groups sample_verify
        (sample_request ''prof2'' groupe_30) sample_db)) = 403"
    using c13 [THEN conjunct1, THEN mp, OF h13]
    by (simp add: json_def)
  have h14: "authenticated sample_verify (sample_request ''prof'' ajout_99) moussa
      \<and> tok_role moussa \<in> {''Professeur'', ''Coordinateur''}
      \<and> \<not> group_exists sample_db (ma_groupId (payload (sample_request ''prof'' ajout_99)))"
    using sample_authenticated(2) ex tc ne pi gi by (simp add: sample_bodies)
  have s14: "status (fst (post_group_members sample_verify
        (sample_request ''prof'' ajout_99) sample_db)) = 404"
    using c14 [THEN conjunct1, THEN mp, OF h14]
    by (simp add: json_def)
  have h15: "authenticated sample_verify (sample_request ''prof2'' ajout_40) ibou
      \<and> tok_role ibou = ''Professeur''
      \<and> select_group_info (ma_groupId (payload (sample_request ''prof2'' ajout_40))) sample_db = (30, 10, 2) # []
      \<and> 2 \<noteq> tok_id ibou"
    using sample_authenticated(5) ex tc ne pi gi by (simp add: sample_bodies)
  have s15: "status (fst (post_group_members sample_verify
        (sample_request ''prof2'' ajout_40) sample_db)) = 403"
    using c15 [THEN conjunct1, THEN mp, OF h15]
    by (simp add: json_def)
  have h16: "authenticated sample_verify (sample_request ''prof'' retrait_99) moussa
      \<and> tok_role moussa \<in> {''Professeur'', ''Coordinateur''}
      \<and> \<not> group_exists sample_db (md_groupId (payload (sample_request ''prof'' retrait_99)))"
    using sample_authenticated(2) ex tc ne pi gi by (simp add: sample_bodies)
  have s16: "status (fst (delete_group_members sample_verify
        (sample_request ''prof'' retrait_99) sample_db)) = 404"
    using c16 [THEN conjunct1, THEN mp, OF h16]
    by (simp add: json_def)
  have h17: "authenticated sample_verify (sample_request ''prof2'' retrait_40) ibou
      \<and> tok_role ibou = ''Professeur''
      \<and> select_group_info (md_groupId (payload (sample_request ''prof2'' retrait_40))) sample_db = (30, 10, 2) # []
      \<and> 2 \<noteq> tok_id ibou"
    using sample_authenticated(5) ex tc ne pi gi by (simp add: sample_bodies)
  have s17: "status (fst (delete_group_members sample_verify
        (sample_request ''prof2'' retrait_40) sample_db)) = 403"
    using c17 [THEN conjunct1, THEN mp, OF h17]
    by (simp add: json_def)
  have h18: "authenticated sample_verify (sample_request ''prof'' annonce_99) moussa
      \<and> tok_role moussa = ''Professeur''
      \<and> \<not> falsy_num (ab_class_id (payload (sample_request ''prof'' annonce_99)))
      \<and> \<not> falsy (ab_titre (payload (sample_request ''prof'' annonce_99)))
      \<and> \<not> falsy (ab_contenu (payload (sample_request ''prof'' annonce_99)))
      \<and> \<not> class_exists sample_db (num_of (ab_class_id (payload (sample_request ''prof'' annonce_99))))"
    using sample_authenticated(2) ex tc ne pi gi by (simp add: sample_bodies)
  have s18: "status (fst (post_announcements sample_verify
        (sample_request ''prof'' annonce_99) sample_db)) = 403"
    using c18 [THEN conjunct1, THEN mp, OF h18]
    by (simp add: json_def)
  have h19: "authenticated sample_verify (sample_request ''prof'' cours_99) moussa
      \<and> tok_role moussa = ''Professeur''
      \<and> \<not> falsy_num (db_class_id (payload (sample_request ''prof'' cours_99)))
      \<and> \<not> falsy (db_titre (payload (sample_request ''prof'' cours_99)))
      \<and> \<not> class_exists sample_db (num_of (db_class_id (payload (sample_request ''prof'' cours_99))))"
    using sample_authenticated(2) ex tc ne pi gi by (simp add: sample_bodies)
  have s19: "status (fst (post_documentations sample_verify
        (sample_request ''prof'' cours_99) sample_db)) = 403"
    using c19 [THEN conjunct1, THEN mp, OF h19]
    by (simp add: json_def)
  have h20: "authenticated sample_verify (sample_request ''prof'' devoir_99) moussa
      \<and> tok_role moussa = ''Professeur''
      \<and> \<not> falsy_num (tb_class_id (payload (sample_request ''prof'' devoir_99)))
      \<and> \<not> falsy (tb_titre (payload (sample_request ''prof'' devoir_99)))
      \<and> \<not> falsy (tb_date_limite (payload (sample_request ''prof'' devoir_99)))
      \<and> \<not> class_exists sample_db (num_of (tb_class_id (payload (sample_request ''prof'' devoir_99))))"
    using sample_authenticated(2) ex tc ne pi gi by (simp add: sample_bodies)
  have s20: "status (fst (post_tasks sample_verify
        (sample_request ''prof'' devoir_99) sample_db)) = 403"
    using c20 [THEN conjunct1, THEN mp, OF h20]
    by (simp add: json_def)
  have h21: "authenticated sample_verify (sample_request ''prof'' (99::int)) moussa
      \<and> tok_role moussa = ''Professeur''
      \<and> \<not> task_exists sample_db (payload (sample_request ''prof'' (99::int)))"
    using sample_authenticated(2) ex tc ne pi gi by (simp add: sample_bodies)
  have s21: "status (fst (get_task_submissions sample_verify
        (sample_request ''prof'' (99::int)) sample_db)) = 403"
    using c21 [THEN conjunct1, THEN mp, OF h21]
    by (simp add: json_def)
  have h22: "authenticated sample_verify (sample_request ''prof'' note_99) moussa
      \<and> tok_role moussa = ''Professeur''
      \<and> gb_grade (payload (sample_request ''prof'' note_99)) = Some 15
      \<and> gb_feedback (payload (sample_request ''prof'' note_99)) = Some ''Bien''
      \<and> \<not> submission_exists sample_db (gb_submissionId (payload (sample_request ''prof'' note_99)))"
    using sample_authenticated(2) ex tc ne pi gi by (simp add: sample_bodies)
  have s22: "status (fst (put_submission_grade sample_verify
        (sample_request ''prof'' note_99) sample_db)) = 403"
    using c22 [THEN conjunct1, THEN mp, OF h22]
    by (simp add: json_def)
  have h23: "authenticated sample_verify (sample_request ''prof'' projet_99) moussa
      \<and> tok_role moussa = ''Professeur''
      \<and> \<not> class_exists sample_db (pb_class_id (payload (sample_request ''prof'' projet_99)))"
    using sample_authenticated(2) ex tc ne pi gi by (simp add: sample_bodies)
  have s23: "status (fst (post_projects sample_verify
        (sample_request ''prof'' projet_99) sample_db)) = 403"
    using c23 [THEN mp, OF h23]
    by (simp add: json_def)
  from tc have tc': "select_task_class 20 sample_db = [10]" .
  from pi have pi': "select_project_info 30 sample_db = [(10, 2)]" .
  from gi have gi': "select_group_info 40 sample_db = [(30, 10, 2)]" .
  from sample_reachable ex tc' ne pi' gi' s0 s1 s2 s3 s4 s5 s6 s7 s8 s9 s10 s11 s12
    s13 s14 s15 s16 s17 s18 s19 s20 s21 s22 s23
  show ?thesis by (intro conjI)
qed

text \<open>
  The claim as stated fails on announcement creation: the teacher who owns class 10
  names class 99, which is not in the store, and is answered 403, not 404.
\<close>

theorem C2_missing_class_counterexample:
  "tok_role moussa = ''Professeur'' \<and> \<not> class_exists sample_db 99
   \<and> ab_class_id annonce_99 = Some 99
   \<and> status (fst (post_announcements sample_verify
        (sample_request ''prof'' annonce_99) sample_db)) = 403"
proof -
  have r: "tok_role moussa = ''Professeur''" by simp
  have e: "\<not> class_exists sample_db 99"
    by (simp add: class_exists_def sample_db_def)
  have c: "ab_class_id annonce_99 = Some 99" by (simp add: sample_bodies)
  have "post_announcements sample_verify (sample_request ''prof'' annonce_99) sample_db
          = announcement_handler moussa annonce_99 sample_db"
    unfolding post_announcements_def teacher_route(1) [OF sample_authenticated(2) r]
    by simp
  also have "\<dots> =
      (json 403
         (Message ''Vous n etes pas autorise a publier une annonce dans cette classe.''),
       sample_db\<lparr>accesses := accesses sample_db + 2\<rparr>)"
    by (rule announcement_missing_class [OF sample_reachable])
       (simp_all add: e sample_bodies)
  finally have "status (fst (post_announcements sample_verify
                  (sample_request ''prof'' annonce_99) sample_db)) = 403"
    by (simp add: json_def)
  with r e c show ?thesis by (intro conjI)
qed

subsection \<open>C3: coordinators on the project and group routes\<close>

lemma project_coordinator_not_member:
  assumes "tok_role u = ''Coordinateur''" and "reachable d"
    and "select_class_member (pb_class_id b) (tok_id u) d = []"
  shows "fst (project_handler u b d) =
           json 403 (Message
               ''En tant que Coordinateur, vous devez etre membre de la classe pour creer un projet.'')"
    and "(snd (project_handler u b d))\<lparr>accesses := accesses d\<rparr> = d"
  using assms
  by (simp_all add: project_handler_def Let_def store_defs)

lemma group_coordinator_not_member:
  assumes "tok_role u = ''Coordinateur''" and "reachable d"
    and "select_project_info (gr_projet_id b) d = (cid, prof) # rest"
    and "select_class_member cid (tok_id u) d = []"
  shows "fst (group_handler u b d) =
           json 403 (Message
               ''En tant que Coordinateur, vous devez etre membre de la classe du projet pour creer un groupe.'')"
    and "(snd (group_handler u b d))\<lparr>accesses := accesses d\<rparr> = d"
  using assms
  by (simp_all add: group_handler_def Let_def store_defs)

lemma member_add_coordinator_not_member:
  assumes "tok_role u = ''Coordinateur''" and "reachable d"
    and "select_group_info (ma_groupId b) d = (pj, cid, prof) # rest"
    and "select_class_member cid (tok_id u) d = []"
  shows "fst (member_add_handler u b d) =
           json 403 (Message
               ''En tant que Coordinateur, vous devez etre membre de la classe du projet du groupe pour le modifier.'')"
    and "(snd (member_add_handler u b d))\<lparr>accesses := accesses d\<rparr> = d"
  using assms
  by (simp_all add: member_add_handler_def Let_def store_defs)

lemma member_delete_coordinator_not_member:
  assumes "tok_role u = ''Coordinateur''" and "reachable d"
    and "select_group_info (md_groupId b) d = (pj, cid, prof) # rest"
    and "select_class_member cid (tok_id u) d = []"
  shows "fst (member_delete_handler u b d) =
           json 403 (Message
               ''En tant que Coordinateur, vous devez etre membre de la classe du projet du groupe pour le modifier.'')"
    and "(snd (member_delete_handler u b d))\<lparr>accesses := accesses d\<rparr> = d"
  using assms
  by (simp_all add: member_delete_handler_def Let_def store_defs)

text \<open>
  Claim C3. The caller is authenticated with role Coordinateur and the store is
  reachable. If no \<open>ClassMembers\<close> row links the caller to the class of the request
  (the class of the body for a project; the class of the project for a group; the
  class of the project of the group for a member addition or removal), the answer is
  the 403 of the coordinator's membership test and no table changes. When the
  project or group of the request is not in the store the answer is 404. So none of
  the four operations is carried out for a coordinator without that row.
\<close>

theorem C3_coordinator_must_be_class_member:
  assumes "tok_role u = ''Coordinateur''" and "reachable d"
  shows "(authenticated verify pq u
          \<and> select_class_member (pb_class_id (payload pq)) (tok_id u) d = []
          \<longrightarrow> fst (post_projects verify pq d) =
                json 403 (Message
                    ''En tant que Coordinateur, vous devez etre membre de la classe pour creer un projet.'')
              \<and> (snd (post_projects verify pq d))\<lparr>accesses := accesses d\<rparr> = d)
       \<and> (authenticated verify gq u
          \<and> select_project_info (gr_projet_id (payload gq)) d = (gc, gp) # grest
          \<and> select_class_member gc (tok_id u) d = []
          \<longrightarrow> fst (post_groups verify gq d) =
                json 403 (Message
                    ''En tant que Coordinateur, vous devez etre membre de la classe du projet pour creer un groupe.'')
              \<and> (snd (post_groups verify gq d))\<lparr>accesses := accesses d\<rparr> = d)
       \<and> (authenticated verify gq u
          \<and> select_project_info (gr_projet_id (payload gq)) d = []
          \<longrightarrow> post_groups verify gq d =
                (json 404 (Message ''Projet non trouve.''), d\<lparr>accesses := accesses d + 2\<rparr>))
       \<and> (authenticated verify aq u
          \<and> select_group_info (ma_groupId (payload aq)) d = (aj, ac, ap) # arest
          \<and> select_class_member ac (tok_id u) d = []
          \<longrightarrow> fst (post_group_members verify aq d) =
                json 403 (Message
                    ''En tant que Coordinateur, vous devez etre membre de la classe du projet du groupe pour le modifier.'')
              \<and> (snd (post_group_members verify aq d))\<lparr>accesses := accesses d\<rparr> = d)
       \<and> (authenticated verify aq u
          \<and> select_group_info (ma_groupId (payload aq)) d = []
          \<longrightarrow> post_group_members verify aq d =
                (json 404 (Message ''Groupe non trouve.''), d\<lparr>accesses := accesses d + 2\<rparr>))
       \<and> (authenticated verify rq u
          \<and> select_group_info (md_groupId (payload rq)) d = (rj, rc, rp) # rrest
          \<and> select_class_member rc (tok_id u) d = []
          \<longrightarrow> fst (delete_group_members verify rq d) =
                json 403 (Message
                    ''En tant que Coordinateur, vous devez etre membre de la classe du projet du groupe pour le modifier.'')
              \<and> (snd (delete_group_members verify rq d))\<lparr>accesses := accesses d\<rparr> = d)
       \<and> (authenticated verify rq u
          \<and> select_group_info (md_groupId (payload rq)) d = []
          \<longrightarrow> delete_group_members verify rq d =
                (json 404 (Message ''Groupe non trouve.''), d\<lparr>accesses := accesses d + 2\<rparr>))"
proof -
  note r = coordinator_route [OF _ assms(1)]
  note routes = post_projects_def post_groups_def post_group_members_def
    delete_group_members_def
  show ?thesis
  proof (intro conjI impI; elim conjE)
    assume a: "authenticated verify pq u"
      and m: "select_class_member (pb_class_id (payload pq)) (tok_id u) d = []"
    show "fst (post_projects verify pq d) =
            json 403 (Message
                ''En tant que Coordinateur, vous devez etre membre de la classe pour creer un projet.'')"
      unfolding routes r [OF a]
      by (rule project_coordinator_not_member(1) [OF assms m])
    show "(snd (post_projects verify pq d))\<lparr>accesses := accesses d\<rparr> = d"
      unfolding routes r [OF a]
      by (rule project_coordinator_not_member(2) [OF assms m])
  next
    assume a: "authenticated verify gq u"
      and i: "select_project_info (gr_projet_id (payload gq)) d = (gc, gp) # grest"
      and m: "select_class_member gc (tok_id u) d = []"
    show "fst (post_groups verify gq d) =
            json 403 (Message
                ''En tant que Coordinateur, vous devez etre membre de la classe du projet pour creer un groupe.'')"
      unfolding routes r [OF a]
      by (rule group_coordinator_not_member(1) [OF assms i m])
    show "(snd (post_groups verify gq d))\<lparr>accesses := accesses d\<rparr> = d"
      unfolding routes r [OF a]
      by (rule group_coordinator_not_member(2) [OF assms i m])
  next
    assume a: "authenticated verify gq u"
      and i: "select_project_info (gr_projet_id (payload gq)) d = []"
    show "post_groups verify gq d =
            (json 404 (Message ''Projet non trouve.''), d\<lparr>accesses := accesses d + 2\<rparr>)"
      unfolding routes r [OF a]
      by (rule group_project_missing [OF assms(2) i])
  next
    assume a: "authenticated verify aq u"
      and i: "select_group_info (ma_groupId (payload aq)) d = (aj, ac, ap) # arest"
      and m: "select_class_member ac (tok_id u) d = []"
    show "fst (post_group_members verify aq d) =
            json 403 (Message
                ''En tant que Coordinateur, vous devez etre membre de la classe du projet du groupe pour le modifier.'')"
      unfolding routes r [OF a]
      by (rule member_add_coordinator_not_member(1) [OF assms i m])
    show "(snd (post_group_members verify aq d))\<lparr>accesses := accesses d\<rparr> = d"
      unfolding routes r [OF a]
      by (rule member_add_coordinator_not_member(2) [OF assms i m])
  next
    assume a: "authenticated verify aq u"
      and i: "select_group_info (ma_groupId (payload aq)) d = []"
    show "post_group_members verify aq d =
            (json 404 (Message ''Groupe non trouve.''), d\<lparr>accesses := accesses d + 2\<rparr>)"
      unfolding routes r [OF a]
      by (rule member_add_group_missing [OF assms(2) i])
  next
    assume a: "authenticated verify rq u"
      and i: "select_group_info (md_groupId (payload rq)) d = (rj, rc, rp) # rrest"
      and m: "select_class_member rc (tok_id u) d = []"
    show "fst (delete_group_members verify rq d) =
            json 403 (Message
                ''En tant que Coordinateur, vous devez etre membre de la classe du projet du groupe pour le modifier.'')"
      unfolding routes r [OF a]
      by (rule member_delete_coordinator_not_member(1) [OF assms i m])
    show "(snd (delete_group_members verify rq d))\<lparr>accesses := accesses d\<rparr> = d"
      unfolding routes r [OF a]
      by (rule member_delete_coordinator_not_member(2) [OF assms i m])
  next
    assume a: "authenticated verify rq u"
      and i: "select_group_info (md_groupId (payload rq)) d = []"
    show "delete_group_members verify rq d =
            (json 404 (Message ''Groupe non trouve.''), d\<lparr>accesses := accesses d + 2\<rparr>)"
      unfolding routes r [OF a]
      by (rule member_delete_group_missing [OF assms(2) i])
  qed
qed

theorem C3_coordinator_must_be_class_member_witness:
  "tok_role awa = ''Coordinateur''
   \<and> reachable sample_db
   \<and> select_class_member 10 (tok_id awa) sample_db = []
   \<and> select_project_info 30 sample_db = [(10, 2)]
   \<and> select_project_info 99 sample_db = []
   \<and> select_group_info 40 sample_db = [(30, 10, 2)]
   \<and> select_group_info 99 sample_db = []
   \<and> status (fst (post_projects sample_verify
        (sample_request ''coord'' projet_10) sample_db)) = 403
   \<and> status (fst (post_groups sample_verify
        (sample_request ''coord'' groupe_30) sample_db)) = 403
   \<and> status (fst (post_groups sample_verify
        (sample_request ''coord'' groupe_99) sample_db)) = 404
   \<and> status (fst (post_group_members sample_verify
        (sample_request ''coord'' ajout_40) sample_db)) = 403
   \<and> status (fst (post_group_members sample_verify
        (sample_request ''coord'' ajout_99) sample_db)) = 404
   \<and> status (fst (delete_group_members sample_verify
        (sample_request ''coord'' retrait_40) sample_db)) = 403
   \<and> status (fst (delete_group_members sample_verify
        (sample_request ''coord'' retrait_99) sample_db)) = 404"
proof -
  have ro: "tok_role awa = ''Coordinateur''" by simp
  have nm: "select_class_member 10 (tok_id awa) sample_db = []"
    by (simp add: select_class_member_def sample_db_def)
  have pi: "select_project_info 30 sample_db = (10, 2) # []"
    and pi0: "select_project_info 99 sample_db = []"
    by (simp_all add: select_project_info_def sample_db_def)
  have gi: "select_group_info 40 sample_db = (30, 10, 2) # []"
    and gi0: "select_group_info 99 sample_db = []"
    by (simp_all add: select_group_info_def sample_db_def)
  note th = C3_coordinator_must_be_class_member [OF ro sample_reachable, of sample_verify]
  note c0 = th
  note c1 = c0 [THEN conjunct2]
  note c2 = c1 [THEN conjunct2]
  note c3 = c2 [THEN conjunct2]
  note c4 = c3 [THEN conjunct2]
  note c5 = c4 [THEN conjunct2]
  note c6 = c5 [THEN conjunct2]
  have h0: "authenticated sample_verify (sample_request ''coord'' projet_10) awa
      \<and> select_class_member (pb_class_id (payload (sample_request ''coord'' projet_10))) (tok_id awa) sample_db = []"
    using sample_authenticated(1) nm by (simp add: sample_bodies)
  have s0: "status (fst (post_projects sample_verify (sample_request ''coord'' projet_10) sample_db)) = 403"
    using c0 [THEN conjunct1, THEN mp, OF h0]
    by (simp add: json_def)
  have h1: "authenticated sample_verify (sample_request ''coord'' groupe_30) awa
      \<and> select_project_info (gr_projet_id (payload (sample_request ''coord'' groupe_30))) sample_db = (10, 2) # []
      \<and> select_class_member 10 (tok_id awa) sample_db = []"
    using sample_authenticated(1) nm pi by (simp add: sample_bodies)
  have s1: "status (fst (post_groups sample_verify (sample_request ''coord'' groupe_30) sample_db)) = 403"
    using c1 [THEN conjunct1, THEN mp, OF h1]
    by (simp add: json_def)
  have h2: "authenticated sample_verify (sample_request ''coord'' groupe_99) awa
      \<and> select_project_info (gr_projet_id (payload (sample_request ''coord'' groupe_99))) sample_db = []"
    using sample_authenticated(1) pi0 by (simp add: sample_bodies)
  have s2: "status (fst (post_groups sample_verify (sample_request ''coord'' groupe_99) sample_db)) = 404"
    using c2 [THEN conjunct1, THEN mp, OF h2]
    by (simp add: json_def)
  have h3: "authenticated sample_verify (sample_request ''coord'' ajout_40) awa
      \<and> select_group_info (ma_groupId (payload (sample_request ''coord'' ajout_40))) sample_db = (30, 10, 2) # []
      \<and> select_class_member 10 (tok_id awa) sample_db = []"
    using sample_authenticated(1) nm gi by (simp add: sample_bodies)
  have s3: "status (fst (post_group_members sample_verify (sample_request ''coord'' ajout_40) sample_db)) = 403"
    using c3 [THEN conjunct1, THEN mp, OF h3]
    by (simp add: json_def)
  have h4: "authenticated sample_verify (sample_request ''coord'' ajout_99) awa
      \<and> select_group_info (ma_groupId (payload (sample_request ''coord'' ajout_99))) sample_db = []"
    using sample_authenticated(1) gi0 by (simp add: sample_bodies)
  have s4: "status (fst (post_group_members sample_verify (sample_request ''coord'' ajout_99) sample_db)) = 404"
    using c4 [THEN conjunct1, THEN mp, OF h4]
    by (simp add: json_def)
  have h5: "authenticated sample_verify (sample_request ''coord'' retrait_40) awa
      \<and> select_group_info (md_groupId (payload (sample_request ''coord'' retrait_40))) sample_db = (30, 10, 2) # []
      \<and> select_class_member 10 (tok_id awa) sample_db = []"
    using sample_authenticated(1) nm gi by (simp add: sample_bodies)
  have s5: "status (fst (delete_group_members sample_verify (sample_request ''coord'' retrait_40) sample_db)) = 403"
    using c5 [THEN conjunct1, THEN mp, OF h5]
    by (simp add: json_def)
  have h6: "authenticated sample_verify (sample_request ''coord'' retrait_99) awa
      \<and> select_group_info (md_groupId (payload (sample_request ''coord'' retrait_99))) sample_db = []"
    using sample_authenticated(1) gi0 by (simp add: sample_bodies)
  have s6: "status (fst (delete_group_members sample_verify (sample_request ''coord'' retrait_99) sample_db)) = 404"
    using c6 [THEN mp, OF h6]
    by (simp add: json_def)
  from pi have pi': "select_project_info 30 sample_db = [(10, 2)]" .
  from gi have gi': "select_group_info 40 sample_db = [(30, 10, 2)]" .
  from ro sample_reachable nm pi' pi0 gi' gi0 s0 s1 s2 s3 s4 s5 s6
  show ?thesis by (intro conjI)
qed

subsection \<open>C4: uniqueness violations\<close>

lemma register_duplicate:
  assumes "payload req = \<lparr>rb_nom = Some n, rb_prenom = Some p, rb_email = Some e,
                           rb_password = Some pw, rb_role = Some r\<rparr>"
    and "n \<noteq> []" "p \<noteq> []" "e \<noteq> []" "pw \<noteq> []" "r \<noteq> []"
    and "reachable d"
    and "select_user_ids_by_email e d \<noteq> []"
  shows "post_register sign hash req d =
           (json 400 (Message ''Cet email est deja enregistre.''),
            d\<lparr>accesses := accesses d + 2\<rparr>)"
  using assms
  by (simp add: post_register_def register_handler_def Let_def store_defs)

lemma join_duplicate:
  assumes "authenticated verify req u" and "tok_role u = ''Etudiant''"
    and "payload req = \<lparr>jb_code = Some k\<rparr>" and "k \<noteq> []"
    and "reachable d"
    and "select_class_ids_by_code k d = cid # rest"
    and "select_enrollment (tok_id u) cid d \<noteq> []"
  shows "post_classes_join verify req d =
           (json 409 (Message ''Vous etes deja inscrit a cette classe.''),
            d\<lparr>accesses := accesses d + 3\<rparr>)"
proof -
  have "tok_role u \<in> set [''Etudiant'']" using assms(2) by simp
  from route_pass2 [OF assms(1) this]
  have "post_classes_join verify req d = join_handler u (payload req) d"
    by (simp add: post_classes_join_def)
  then show ?thesis using assms(3-)
    by (simp add: join_handler_def Let_def store_defs)
qed

lemma member_add_duplicate:
  assumes "authenticated verify req u"
    and "tok_role u \<in> {''Professeur'', ''Coordinateur''}"
    and "payload req = \<lparr>ma_groupId = gid, ma_user_id_to_add = k\<rparr>"
    and "reachable d"
    and "select_group_info gid d = (pj, cid, prof) # rest"
    and "tok_role u = ''Coordinateur'' \<or> prof = tok_id u"
    and "tok_role u = ''Coordinateur'' \<longrightarrow> select_class_member cid (tok_id u) d \<noteq> []"
    and "select_user_id_role k d = (k', ''Etudiant'') # rest'"
    and "select_class_member cid k d \<noteq> []"
    and "select_group_member gid k d \<noteq> []"
  shows "fst (post_group_members verify req d) =
           json 409 (Message ''Cet utilisateur est deja membre de ce groupe.'')"
    and "(snd (post_group_members verify req d))\<lparr>accesses := accesses d\<rparr> = d"
proof -
  have "tok_role u \<in> set [''Professeur'', ''Coordinateur'']" using assms(2) by simp
  from route_pass2 [OF assms(1) this]
  have eq: "post_group_members verify req d = member_add_handler u (payload req) d"
    by (simp add: post_group_members_def)
  show "fst (post_group_members verify req d) =
           json 409 (Message ''Cet utilisateur est deja membre de ce groupe.'')"
    unfolding eq using assms(3-)
    by (cases "tok_role u = ''Coordinateur''")
       (simp_all add: member_add_handler_def Let_def store_defs)
  show "(snd (post_group_members verify req d))\<lparr>accesses := accesses d\<rparr> = d"
    unfolding eq using assms(3-)
    by (cases "tok_role u = ''Coordinateur''")
       (simp_all add: member_add_handler_def Let_def store_defs)
qed

text \<open>
  Claim C4, as the code has it. Joining a class the caller is already enrolled in and
  adding a user who is already a member of the group are answered 409, once the
  request has passed the checks that come first in the handler; registering with an
  email that a \<open>Users\<close> row already has is answered 400. No table changes in any of
  the three cases.
\<close>

theorem C4_uniqueness_violations_amended:
  assumes "reachable d"
  shows "(payload rq = \<lparr>rb_nom = Some n, rb_prenom = Some p, rb_email = Some e,
                         rb_password = Some pw, rb_role = Some r\<rparr>
          \<and> n \<noteq> [] \<and> p \<noteq> [] \<and> e \<noteq> [] \<and> pw \<noteq> []
              \<and> r \<noteq> []
          \<and> select_user_ids_by_email e d \<noteq> []
          \<longrightarrow> post_register sign hash rq d =
                (json 400 (Message ''Cet email est deja enregistre.''),
                 d\<lparr>accesses := accesses d + 2\<rparr>))
       \<and> (authenticated verify jq u \<and> tok_role u = ''Etudiant''
          \<and> payload jq = \<lparr>jb_code = Some k\<rparr> \<and> k \<noteq> []
          \<and> select_class_ids_by_code k d = cid # rest
          \<and> select_enrollment (tok_id u) cid d \<noteq> []
          \<longrightarrow> post_classes_join verify jq d =
                (json 409 (Message ''Vous etes deja inscrit a cette classe.''),
                 d\<lparr>accesses := accesses d + 3\<rparr>))
       \<and> (authenticated verify mq a \<and> tok_role a \<in> {''Professeur'', ''Coordinateur''}
          \<and> payload mq = \<lparr>ma_groupId = gid, ma_user_id_to_add = s\<rparr>
          \<and> select_group_info gid d = (pj, gc, prof) # rest'
          \<and> (tok_role a = ''Coordinateur'' \<or> prof = tok_id a)
          \<and> (tok_role a = ''Coordinateur'' \<longrightarrow> select_class_member gc (tok_id a)
              d \<noteq> [])
          \<and> select_user_id_role s d = (s', ''Etudiant'') # rest''
          \<and> select_class_member gc s d \<noteq> []
          \<and> select_group_member gid s d \<noteq> []
          \<longrightarrow> fst (post_group_members verify mq d) =
                  json 409 (Message ''Cet utilisateur est deja membre de ce groupe.'')
              \<and> (snd (post_group_members verify mq d))\<lparr>accesses := accesses d\<rparr> = d)"
proof (intro conjI impI)
  assume "payload rq = \<lparr>rb_nom = Some n, rb_prenom = Some p, rb_email = Some e,
                         rb_password = Some pw, rb_role = Some r\<rparr>
          \<and> n \<noteq> [] \<and> p \<noteq> [] \<and> e \<noteq> [] \<and> pw \<noteq> []
              \<and> r \<noteq> []
          \<and> select_user_ids_by_email e d \<noteq> []"
  then show "post_register sign hash rq d =
                (json 400 (Message ''Cet email est deja enregistre.''),
                 d\<lparr>accesses := accesses d + 2\<rparr>)"
    using assms
    by (elim conjE)
       (rule register_duplicate [where n = n and p = p and e = e and pw = pw and r = r];
        assumption)
next
  assume "authenticated verify jq u \<and> tok_role u = ''Etudiant''
          \<and> payload jq = \<lparr>jb_code = Some k\<rparr> \<and> k \<noteq> []
          \<and> select_class_ids_by_code k d = cid # rest
          \<and> select_enrollment (tok_id u) cid d \<noteq> []"
  then show "post_classes_join verify jq d =
                (json 409 (Message ''Vous etes deja inscrit a cette classe.''),
                 d\<lparr>accesses := accesses d + 3\<rparr>)"
    using assms
    by (elim conjE) (rule join_duplicate [where cid = cid and rest = rest and k = k]; assumption)
next
  assume h: "authenticated verify mq a \<and> tok_role a \<in> {''Professeur'', ''Coordinateur''}
          \<and> payload mq = \<lparr>ma_groupId = gid, ma_user_id_to_add = s\<rparr>
          \<and> select_group_info gid d = (pj, gc, prof) # rest'
          \<and> (tok_role a = ''Coordinateur'' \<or> prof = tok_id a)
          \<and> (tok_role a = ''Coordinateur'' \<longrightarrow> select_class_member gc (tok_id a)
              d \<noteq> [])
          \<and> select_user_id_role s d = (s', ''Etudiant'') # rest''
          \<and> select_class_member gc s d \<noteq> []
          \<and> select_group_member gid s d \<noteq> []"
  then show "fst (post_group_members verify mq d) =
                  json 409 (Message ''Cet utilisateur est deja membre de ce groupe.'')"
    using assms
    by (elim conjE)
       (rule member_add_duplicate(1)
          [where gid = gid and k = s and pj = pj and cid = gc and prof = prof
             and rest = rest' and k' = s' and rest' = rest'']; assumption)
  from h show "(snd (post_group_members verify mq d))\<lparr>accesses := accesses d\<rparr> = d"
    using assms
    by (elim conjE)
       (rule member_add_duplicate(2)
          [where gid = gid and k = s and pj = pj and cid = gc and prof = prof
             and rest = rest' and k' = s' and rest' = rest'']; assumption)
qed

theorem C4_uniqueness_violations_amended_witness:
  "reachable sample_db
   \<and> select_user_ids_by_email ''awa@ecole.sn'' sample_db \<noteq> []
   \<and> status (fst (post_register sample_sign sample_hash
         (anonymous_request \<lparr>rb_nom = Some ''Diallo'', rb_prenom = Some ''Awa'',
            rb_email = Some ''awa@ecole.sn'', rb_password = Some ''secret'',
            rb_role = Some ''Etudiant''\<rparr>) sample_db)) = 400
   \<and> select_enrollment 3 10 sample_db \<noteq> []
   \<and> status (fst (post_classes_join sample_verify
         (sample_request ''etud'' \<lparr>jb_code = Some ''ABC123''\<rparr>) sample_db)) = 409
   \<and> select_group_member 40 3 sample_db \<noteq> []
   \<and> status (fst (post_group_members sample_verify
         (sample_request ''prof'' \<lparr>ma_groupId = 40, ma_user_id_to_add = 3\<rparr>) sample_db)) = 409"
proof -
  let ?rb = "\<lparr>rb_nom = Some ''Diallo'', rb_prenom = Some ''Awa'',
            rb_email = Some ''awa@ecole.sn'', rb_password = Some ''secret'',
            rb_role = Some ''Etudiant''\<rparr>"
  note th = C4_uniqueness_violations_amended [OF sample_reachable]
  have e1: "select_user_ids_by_email ''awa@ecole.sn'' sample_db \<noteq> []"
    by (simp add: select_user_ids_by_email_def sample_db_def)
  have h1: "payload (anonymous_request ?rb) = ?rb
          \<and> ''Diallo'' \<noteq> [] \<and> ''Awa'' \<noteq> [] \<and> ''awa@ecole.sn'' \<noteq>
              [] \<and> ''secret'' \<noteq> []
          \<and> ''Etudiant'' \<noteq> []
          \<and> select_user_ids_by_email ''awa@ecole.sn'' sample_db \<noteq> []"
    using e1 by simp
  have r1: "status (fst (post_register sample_sign sample_hash (anonymous_request ?rb)
              sample_db)) = 400"
    using th [THEN conjunct1, THEN mp, OF h1, of sample_sign sample_hash]
    by (simp add: json_def)
  have c2: "select_class_ids_by_code ''ABC123'' sample_db = 10 # []"
    by (simp add: select_class_ids_by_code_def sample_db_def)
  have e2: "select_enrollment 3 10 sample_db \<noteq> []"
    by (simp add: select_enrollment_def sample_db_def)
  have h2: "authenticated sample_verify (sample_request ''etud'' \<lparr>jb_code = Some ''ABC123''\<rparr>)
              fatou \<and> tok_role fatou = ''Etudiant''
          \<and> payload (sample_request ''etud'' \<lparr>jb_code = Some ''ABC123''\<rparr>)
              = \<lparr>jb_code = Some ''ABC123''\<rparr> \<and> ''ABC123'' \<noteq> []
          \<and> select_class_ids_by_code ''ABC123'' sample_db = 10 # []
          \<and> select_enrollment (tok_id fatou) 10 sample_db \<noteq> []"
    using c2 e2 sample_authenticated(3) by simp
  have r2: "status (fst (post_classes_join sample_verify
              (sample_request ''etud'' \<lparr>jb_code = Some ''ABC123''\<rparr>) sample_db)) = 409"
    using th [THEN conjunct2, THEN conjunct1, THEN mp, OF h2] by (simp add: json_def)
  have g3: "select_group_info 40 sample_db = (30, 10, 2) # []"
    by (simp add: select_group_info_def sample_db_def)
  have u3: "select_user_id_role 3 sample_db = (3, ''Etudiant'') # []"
    by (simp add: select_user_id_role_def sample_db_def)
  have m3: "select_class_member 10 3 sample_db \<noteq> []"
    by (simp add: select_class_member_def sample_db_def)
  have e3: "select_group_member 40 3 sample_db \<noteq> []"
    by (simp add: select_group_member_def sample_db_def)
  have h3: "authenticated sample_verify
              (sample_request ''prof'' \<lparr>ma_groupId = 40, ma_user_id_to_add = 3\<rparr>) moussa
          \<and> tok_role moussa \<in> {''Professeur'', ''Coordinateur''}
          \<and> payload (sample_request ''prof'' \<lparr>ma_groupId = 40, ma_user_id_to_add = 3\<rparr>)
              = \<lparr>ma_groupId = 40, ma_user_id_to_add = 3\<rparr>
          \<and> select_group_info 40 sample_db = (30, 10, 2) # []
          \<and> (tok_role moussa = ''Coordinateur'' \<or> 2 = tok_id moussa)
          \<and> (tok_role moussa = ''Coordinateur''
               \<longrightarrow> select_class_member 10 (tok_id moussa) sample_db \<noteq> [])
          \<and> select_user_id_role 3 sample_db = (3, ''Etudiant'') # []
          \<and> select_class_member 10 3 sample_db \<noteq> []
          \<and> select_group_member 40 3 sample_db \<noteq> []"
    using g3 u3 m3 e3 sample_authenticated(2) by simp
  have r3: "status (fst (post_group_members sample_verify
              (sample_request ''prof'' \<lparr>ma_groupId = 40, ma_user_id_to_add = 3\<rparr>)
              sample_db)) = 409"
    using th [THEN conjunct2, THEN conjunct2, THEN mp, OF h3] by (simp add: json_def)
  from sample_reachable e1 r1 e2 r2 e3 r3 show ?thesis by (intro conjI)
qed

text \<open>
  The claim as stated fails for registration: a second registration with the email
  of user 1 is answered 400, not 409.
\<close>

theorem C4_register_counterexample:
  "status (fst (post_register sample_sign sample_hash
      (anonymous_request \<lparr>rb_nom = Some ''Diallo'', rb_prenom = Some ''Awa'',
         rb_email = Some ''awa@ecole.sn'', rb_password = Some ''secret'',
         rb_role = Some ''Etudiant''\<rparr>) sample_db)) = 400"
proof -
  have "select_user_ids_by_email ''awa@ecole.sn'' sample_db \<noteq> []"
    by (simp add: select_user_ids_by_email_def sample_db_def)
  from register_duplicate [OF sample_payload(2) _ _ _ _ _ sample_reachable this,
      of "''Diallo''" "''Awa''" "''secret''" "''Etudiant''" sample_sign sample_hash]
  show ?thesis by (simp add: json_def)
qed

subsection \<open>C5: POST /api/tasks/:taskId/submit, twice\<close>











subsection \<open>C6: PUT /api/users/:userId/role and DELETE /api/users/:userId\<close>








subsection \<open>C7: requests without a valid token\<close>

text \<open>
  Claim C7. A request that presents no token (\<open>None\<close> or the empty header), or a
  token that \<^verbatim>\<open>jwt.verify\<close> rejects, is answered 401 by \<^verbatim>\<open>auth\<close>, which does
  not call \<^verbatim>\<open>next()\<close>. Every protected route of the source is registered as
  \<^verbatim>\<open>app.METHOD(path, auth, ..., handler)\<close>, that is \<open>route (auth verify # ms) h\<close>:
  whatever the later middlewares \<open>ms\<close> and the handler \<open>h\<close> are, and in particular
  on each of the sixteen protected routes of this theory, the store that comes back
  is the store that went in, its access counter included.
\<close>

theorem C7_no_token_no_store_access:
  assumes "falsy tk \<or> verify (text_of tk) = None"
  shows "status (refusal tk) = 401
       \<and> route (auth verify # ms) h \<lparr>token = tk, user = usr, payload = p\<rparr> d
           = (refusal tk, d)
       \<and> post_classes_join verify \<lparr>token = tk, user = usr, payload = p1\<rparr> d
           = (refusal tk, d)
       \<and> post_announcements verify \<lparr>token = tk, user = usr, payload = p2\<rparr> d
           = (refusal tk, d)
       \<and> post_documentations verify \<lparr>token = tk, user = usr, payload = p3\<rparr> d
           = (refusal tk, d)
       \<and> post_tasks verify \<lparr>token = tk, user = usr, payload = p4\<rparr> d
           = (refusal tk, d)
       \<and> post_tasks_submit verify \<lparr>token = tk, user = usr, payload = p5\<rparr> d
           = (refusal tk, d)
       \<and> get_task_submissions verify \<lparr>token = tk, user = usr, payload = p6\<rparr> d
           = (refusal tk, d)
       \<and> put_submission_grade verify \<lparr>token = tk, user = usr, payload = p7\<rparr> d
           = (refusal tk, d)
       \<and> get_submission verify \<lparr>token = tk, user = usr, payload = p8\<rparr> d
           = (refusal tk, d)
       \<and> post_messages verify \<lparr>token = tk, user = usr, payload = p9\<rparr> d
           = (refusal tk, d)
       \<and> get_users_all verify \<lparr>token = tk, user = usr, payload = p10\<rparr> d
           = (refusal tk, d)
       \<and> post_projects verify \<lparr>token = tk, user = usr, payload = p11\<rparr> d
           = (refusal tk, d)
       \<and> post_groups verify \<lparr>token = tk, user = usr, payload = p12\<rparr> d
           = (refusal tk, d)
       \<and> post_group_members verify \<lparr>token = tk, user = usr, payload = p13\<rparr> d
           = (refusal tk, d)
       \<and> delete_group_members verify \<lparr>token = tk, user = usr, payload = p14\<rparr> d
           = (refusal tk, d)
       \<and> put_user_role verify \<lparr>token = tk, user = usr, payload = p15\<rparr> d
           = (refusal tk, d)
       \<and> delete_user_route verify \<lparr>token = tk, user = usr, payload = p16\<rparr> d
           = (refusal tk, d)"
proof -
  note chain = route_auth_refuses [where verify = verify and tk = tk, OF assms]
  show ?thesis
    unfolding post_classes_join_def post_announcements_def post_documentations_def
      post_tasks_def post_tasks_submit_def get_task_submissions_def
      put_submission_grade_def get_submission_def post_messages_def get_users_all_def
      post_projects_def post_groups_def
      post_group_members_def delete_group_members_def put_user_role_def delete_user_route_def
    by (intro conjI chain) (simp add: refusal_def json_def)
qed

theorem C7_no_token_no_store_access_witness:
  "(falsy (Some ''expire'') \<or> sample_verify (text_of (Some ''expire'')) = None)
   \<and> status (fst (get_users_all sample_verify
        \<lparr>token = Some ''expire'', user = None, payload = ()\<rparr> sample_db)) = 401
   \<and> snd (get_users_all sample_verify
        \<lparr>token = Some ''expire'', user = None, payload = ()\<rparr> sample_db) = sample_db
   \<and> (falsy None \<or> sample_verify (text_of None) = None)
   \<and> status (fst (delete_user_route sample_verify
        \<lparr>token = None, user = None, payload = 1\<rparr> sample_db)) = 401
   \<and> snd (delete_user_route sample_verify
        \<lparr>token = None, user = None, payload = 1\<rparr> sample_db) = sample_db"
proof -
  have h1: "falsy (Some ''expire'') \<or> sample_verify (text_of (Some ''expire'')) = None"
    by (simp add: sample_verify_def)
  have h2: "falsy None \<or> sample_verify (text_of None) = None"
    by simp
  note t1 = C7_no_token_no_store_access
              [where verify = sample_verify and tk = "Some ''expire''" and usr = None
                 and d = sample_db, OF h1]
  note t2 = C7_no_token_no_store_access
              [where verify = sample_verify and tk = None and usr = None and d = sample_db,
               OF h2]
  have a: "get_users_all sample_verify \<lparr>token = Some ''expire'', user = None, payload = ()\<rparr>
             sample_db = (refusal (Some ''expire''), sample_db)"
    by (rule t1 [THEN conjunct2, THEN conjunct2, THEN conjunct2, THEN conjunct2,
              THEN conjunct2, THEN conjunct2, THEN conjunct2, THEN conjunct2,
              THEN conjunct2, THEN conjunct2, THEN conjunct2, THEN conjunct1])
  have b: "delete_user_route sample_verify \<lparr>token = None, user = None, payload = 1\<rparr>
             sample_db = (refusal None, sample_db)"
    by (rule t2 [THEN conjunct2, THEN conjunct2, THEN conjunct2, THEN conjunct2,
              THEN conjunct2, THEN conjunct2, THEN conjunct2, THEN conjunct2,
              THEN conjunct2, THEN conjunct2, THEN conjunct2, THEN conjunct2,
              THEN conjunct2, THEN conjunct2, THEN conjunct2, THEN conjunct2,
              THEN conjunct2])
  have s1: "status (refusal (Some ''expire'')) = 401" by (rule t1 [THEN conjunct1])
  have s2: "status (refusal None) = 401" by (rule t2 [THEN conjunct1])
  from h1 h2 s1 s2 show ?thesis unfolding a b by simp
qed

subsection \<open>C8: POST /api/messages\<close>







subsection \<open>C9: POST /api/auth/register\<close>

lemma register_created:
  assumes "payload req = \<lparr>rb_nom = Some n, rb_prenom = Some p, rb_email = Some e,
                           rb_password = Some pw, rb_role = Some r\<rparr>"
    and "n \<noteq> []" "p \<noteq> []" "e \<noteq> []" "pw \<noteq> []" "r \<noteq> []"
    and "reachable d"
    and "select_user_ids_by_email e d = []"
  shows "post_register sign hash req d =
           (json 201
              (Registered ''Utilisateur enregistre avec succes !''
                 (sign \<lparr>tok_id = auto_increment (Users d), tok_email = e, tok_role = r\<rparr>)
                 \<lparr>rv_id = auto_increment (Users d), rv_nom = n, rv_prenom = p, rv_email = e,
                  rv_role = r\<rparr>),
            d\<lparr>Users := \<lparr>rows = rows (Users d) @
                             [\<lparr>u_id = auto_increment (Users d), u_nom = n, u_prenom = p,
                               u_email = e, u_motDePasse = hash pw, u_role = r\<rparr>],
                          auto_increment = auto_increment (Users d) + 1\<rparr>,
               accesses := accesses d + 3\<rparr>)"
  using assms
  by (simp add: post_register_def register_handler_def Let_def store_defs insert_user_def
      insert_row_def)

text \<open>
  Claim C9. Registration runs behind no middleware (the token of the request is not
  read), and when the five fields are present and no \<open>Users\<close> row has the email, it
  answers 201, appends one \<open>Users\<close> row whose role is the string of the request, and
  issues a token signed over that same role; the role is not compared with anything,
  so \<^verbatim>\<open>Coordinateur\<close> is accepted like any other string.
\<close>

theorem C9_register_stores_requested_role:
  assumes "payload req = \<lparr>rb_nom = Some n, rb_prenom = Some p, rb_email = Some e,
                           rb_password = Some pw, rb_role = Some r\<rparr>"
    and "n \<noteq> []" "p \<noteq> []" "e \<noteq> []" "pw \<noteq> []" "r \<noteq> []"
    and "reachable d"
    and "select_user_ids_by_email e d = []"
  shows "post_register sign hash req d =
           (json 201
              (Registered ''Utilisateur enregistre avec succes !''
                 (sign \<lparr>tok_id = auto_increment (Users d), tok_email = e, tok_role = r\<rparr>)
                 \<lparr>rv_id = auto_increment (Users d), rv_nom = n, rv_prenom = p, rv_email = e,
                  rv_role = r\<rparr>),
            d\<lparr>Users := \<lparr>rows = rows (Users d) @
                             [\<lparr>u_id = auto_increment (Users d), u_nom = n, u_prenom = p,
                               u_email = e, u_motDePasse = hash pw, u_role = r\<rparr>],
                          auto_increment = auto_increment (Users d) + 1\<rparr>,
               accesses := accesses d + 3\<rparr>)"
  using assms by (rule register_created)

theorem C9_register_stores_requested_role_witness:
  "select_user_ids_by_email ''sokhna@ecole.sn'' sample_db = [] \<and> reachable sample_db
   \<and> status (fst (post_register sample_sign sample_hash
         (anonymous_request \<lparr>rb_nom = Some ''Fall'', rb_prenom = Some ''Sokhna'',
            rb_email = Some ''sokhna@ecole.sn'', rb_password = Some ''secret'',
            rb_role = Some ''Coordinateur''\<rparr>) sample_db)) = 201
   \<and> u_role (last (rows (Users (snd (post_register sample_sign sample_hash
         (anonymous_request \<lparr>rb_nom = Some ''Fall'', rb_prenom = Some ''Sokhna'',
            rb_email = Some ''sokhna@ecole.sn'', rb_password = Some ''secret'',
            rb_role = Some ''Coordinateur''\<rparr>) sample_db))))) = ''Coordinateur''"
proof -
  let ?b = "\<lparr>rb_nom = Some ''Fall'', rb_prenom = Some ''Sokhna'',
            rb_email = Some ''sokhna@ecole.sn'', rb_password = Some ''secret'',
            rb_role = Some ''Coordinateur''\<rparr>"
  have pl: "payload (anonymous_request ?b) = ?b"
    by (simp add: anonymous_request_def)
  have unused: "select_user_ids_by_email ''sokhna@ecole.sn'' sample_db = []"
    by (simp add: select_user_ids_by_email_def sample_db_def)
  have "''Fall'' \<noteq> []" "''Sokhna'' \<noteq> []" "''sokhna@ecole.sn'' \<noteq> []" "''secret''
      \<noteq> []"
    "''Coordinateur'' \<noteq> []" by simp_all
  note th = C9_register_stores_requested_role
              [of _ _ _ _ _ _ _ sample_sign sample_hash, OF pl this sample_reachable unused]
  have st: "status (fst (post_register sample_sign sample_hash (anonymous_request ?b)
              sample_db)) = 201"
    unfolding th by (simp add: json_def)
  have ro: "u_role (last (rows (Users (snd (post_register sample_sign sample_hash
              (anonymous_request ?b) sample_db))))) = ''Coordinateur''"
    unfolding th by simp
  from unused sample_reachable st ro show ?thesis by (intro conjI)
qed

subsection \<open>C10: GET /api/submissions/:submissionId\<close>






end
